theory Spec2Isabelle
  imports Main
begin

section \<open>Dates and the platform functions the dialog calls\<close>

text \<open>
  A JavaScript \<open>Date\<close> holds a time value: a number of milliseconds since the epoch, or
  NaN (an "Invalid Date"). Time values are modelled as unbounded integers; the range
  limit of \<open>TimeClip\<close> (about 8.64e15 ms) is not modelled.
\<close>

type_synonym millis = int

datatype date = InvalidDate | Date millis

definition msPerMinute :: int where
  "msPerMinute = 60000"

definition msPerHour :: int where
  "msPerHour = 3600000"

definition msPerDay :: int where
  "msPerDay = 86400000"

text \<open>
  Functions of the browser and of date-fns that the repository calls but does not define
  are parameters of the model: the local time zone adjustment \<open>LocalTZA(t, isUTC)\<close> of
  ECMAScript, date-fns' \<open>parseISO\<close>, and \<open>Date.prototype.toISOString\<close>.
\<close>

record platform =
  LocalTZA :: "millis \<Rightarrow> bool \<Rightarrow> millis"
  parseISO :: "string \<Rightarrow> date"
  toISOString :: "millis \<Rightarrow> string"

text \<open>
  \<open>date.setHours(hours, minutes, sec, ms)\<close> as ECMAScript defines it:
  \<open>t = LocalTime(time value)\<close>, \<open>date = MakeDate(Day(t), MakeTime(hours, minutes, sec, ms))\<close>,
  result \<open>UTC(date)\<close>. A NaN argument (here \<open>None\<close>) gives an Invalid Date; the source
  passes literal seconds and milliseconds.
\<close>

definition setHours ::
  "platform \<Rightarrow> date \<Rightarrow> int option \<Rightarrow> int option \<Rightarrow> int \<Rightarrow> int \<Rightarrow> date" where
  "setHours P dt hours minutes sec ms =
     (case dt of
        InvalidDate \<Rightarrow> InvalidDate
      | Date t \<Rightarrow>
          (case hours of
             None \<Rightarrow> InvalidDate
           | Some h \<Rightarrow>
               (case minutes of
                  None \<Rightarrow> InvalidDate
                | Some m \<Rightarrow>
                    (let lt = t + LocalTZA P t True;
                         d = (lt div msPerDay) * msPerDay
                               + (h * msPerHour + m * msPerMinute + sec * 1000 + ms)
                     in Date (d - LocalTZA P d False)))))"

text \<open>date-fns \<open>addMinutes(date, amount)\<close>: the time value plus \<open>amount * 60000\<close>.\<close>

definition addMinutes :: "date \<Rightarrow> int option \<Rightarrow> date" where
  "addMinutes dt amount =
     (case dt of
        InvalidDate \<Rightarrow> InvalidDate
      | Date t \<Rightarrow> (case amount of None \<Rightarrow> InvalidDate | Some n \<Rightarrow> Date (t + n * msPerMinute)))"

text \<open>date-fns \<open>isBefore\<close> and \<open>isAfter\<close> compare time values; a comparison with NaN is false.\<close>

fun isBefore :: "date \<Rightarrow> date \<Rightarrow> bool" where
  "isBefore (Date a) (Date b) = (a < b)"
| "isBefore _ _ = False"

fun isAfter :: "date \<Rightarrow> date \<Rightarrow> bool" where
  "isAfter (Date a) (Date b) = (a > b)"
| "isAfter _ _ = False"

subsection \<open>Strings to numbers\<close>

fun digit_val :: "char \<Rightarrow> int option" where
  "digit_val c =
     map_of [(CHR ''0'', 0), (CHR ''1'', 1), (CHR ''2'', 2), (CHR ''3'', 3), (CHR ''4'', 4),
             (CHR ''5'', 5), (CHR ''6'', 6), (CHR ''7'', 7), (CHR ''8'', 8), (CHR ''9'', 9)] c"

fun digits_val :: "int \<Rightarrow> string \<Rightarrow> int option" where
  "digits_val acc [] = Some acc"
| "digits_val acc (c # cs) =
     (case digit_val c of None \<Rightarrow> None | Some d \<Rightarrow> digits_val (10 * acc + d) cs)"

text \<open>
  \<open>Number(s)\<close> on the strings the dialog passes: a run of decimal digits is its value, the
  empty string is 0, and \<open>None\<close> stands for NaN. The other numeric literal forms of
  JavaScript (sign, fraction, exponent, radix prefix, surrounding white space) do not occur in
  the slot grid and are read as NaN here.
\<close>

definition Number :: "string \<Rightarrow> int option" where
  "Number s = digits_val 0 s"

text \<open>
  \<open>parseInt(s)\<close> reads the longest prefix of decimal digits and is NaN when there is none
  (leading white space, a sign and the \<open>0x\<close> prefix are not modelled: the duration select
  offers "30", "45", "60", "90" and "120").
\<close>

definition parseInt :: "string \<Rightarrow> int option" where
  "parseInt s =
     (let ds = takeWhile (\<lambda>c. digit_val c \<noteq> None) s
      in if ds = [] then None else digits_val 0 ds)"

text \<open>\<open>s.split(c)\<close> for a one-character separator.\<close>

fun split :: "char \<Rightarrow> string \<Rightarrow> string list" where
  "split c [] = [[]]"
| "split c (x # xs) =
     (if x = c then [] # split c xs
      else (case split c xs of [] \<Rightarrow> [[x]] | w # ws \<Rightarrow> (x # w) # ws))"

section \<open>The scheduling dialog (ScheduleInterviewDialog)\<close>

record BusySlot =
  start :: string
  end' :: string

record Application =
  app_id :: string
  full_name :: string
  email :: string
  title :: string

datatype toast = ToastError string | ToastSuccess string

text \<open>
  The component's state variables. \<open>selectedDate\<close> is \<open>None\<close> while undefined and otherwise
  the time value of the date picked in the calendar; \<open>applications\<close> is the data of the
  'schedulable-applications' query (\<open>None\<close> while it has none).
\<close>

record dialog =
  is_open :: bool
  selectedApplication :: string
  selectedDate :: "millis option"
  selectedTime :: string
  duration :: string
  interviewType :: string
  createMeetLink :: bool
  busySlots :: "BusySlot list"
  loadingBusy :: bool
  calendarConnected :: bool
  checkingCalendar :: bool
  applications :: "Application list option"
  toasts :: "toast list"

definition timeSlots :: "string list" where
  "timeSlots =
     [''09:00'', ''09:30'', ''10:00'', ''10:30'', ''11:00'', ''11:30'',
      ''12:00'', ''12:30'', ''13:00'', ''13:30'', ''14:00'', ''14:30'',
      ''15:00'', ''15:30'', ''16:00'', ''16:30'', ''17:00'']"

text \<open>
  The statements \<open>const [hours, minutes] = timeSlot.split(':').map(Number);
  const d = new Date(selectedDate); d.setHours(hours, minutes, 0, 0)\<close>, which
  \<open>isSlotBusy\<close> and the mutation both run. A missing array element is \<open>undefined\<close>, which
  \<open>setHours\<close> reads as NaN.
\<close>

definition combineDateTime :: "platform \<Rightarrow> millis \<Rightarrow> string \<Rightarrow> date" where
  "combineDateTime P t timeSlot =
     (let parts = map Number (split CHR '':'' timeSlot);
          hours = (case parts of [] \<Rightarrow> None | h # _ \<Rightarrow> h);
          minutes = (case parts of [] \<Rightarrow> None | [_] \<Rightarrow> None | _ # m # _ \<Rightarrow> m)
      in setHours P (Date t) hours minutes 0 0)"

definition isSlotBusy :: "platform \<Rightarrow> dialog \<Rightarrow> string \<Rightarrow> bool" where
  "isSlotBusy P st timeSlot =
     (case selectedDate st of
        None \<Rightarrow> False
      | Some t \<Rightarrow>
          if busySlots st = [] then False
          else
            (let slotStart = combineDateTime P t timeSlot;
                 slotEnd = addMinutes slotStart (parseInt (duration st))
             in list_ex
                  (\<lambda>busy.
                     let busyStart = parseISO P (start busy);
                         busyEnd = parseISO P (end' busy)
                     in isBefore slotStart busyEnd \<and> isAfter slotEnd busyStart)
                  (busySlots st)))"

fun firstAvailableIn :: "platform \<Rightarrow> dialog \<Rightarrow> string list \<Rightarrow> string option" where
  "firstAvailableIn P st [] = None"
| "firstAvailableIn P st (slot # rest) =
     (if \<not> isSlotBusy P st slot then Some slot else firstAvailableIn P st rest)"

definition findFirstAvailable :: "platform \<Rightarrow> dialog \<Rightarrow> string option" where
  "findFirstAvailable P st = firstAvailableIn P st timeSlots"

text \<open>
  The effect "Auto-select first available when date changes", as a function of the state the
  render that scheduled it saw. \<open>firstAvailable && !selectedTime\<close> tests both strings for
  being non-empty.
\<close>

definition autoSelectEffect :: "platform \<Rightarrow> dialog \<Rightarrow> dialog" where
  "autoSelectEffect P st =
     (if selectedDate st \<noteq> None \<and> \<not> loadingBusy st then
        (case findFirstAvailable P st of
           None \<Rightarrow> st
         | Some firstAvailable \<Rightarrow>
             if firstAvailable \<noteq> [] \<and> selectedTime st = []
             then st\<lparr>selectedTime := firstAvailable\<rparr>
             else st)
      else st)"

definition resetForm :: "dialog \<Rightarrow> dialog" where
  "resetForm st =
     st\<lparr>selectedApplication := [], selectedDate := None, selectedTime := [],
        duration := ''60'', interviewType := ''Technical'', busySlots := []\<rparr>"

section \<open>The backend: tables, environment and external services\<close>

datatype application_status = applied | screening | interview | offer | hired | rejected

record application_row =
  application_pk :: string
  application_status :: application_status

text \<open>
  A row of \<open>public.interviews\<close>. The primary key \<open>id\<close> (\<open>gen_random_uuid()\<close>) is drawn from a
  supply of fresh identifiers; the columns \<open>created_at\<close> and \<open>updated_at\<close> (both \<open>now()\<close>) are
  left out.
\<close>

record interview_row =
  interview_id :: nat
  application_id :: string
  scheduled_at :: string
  duration_minutes :: int
  interview_type :: string
  meeting_url :: "string option"
  meeting_id :: "string option"
  interview_notes :: "string option"
  interview_status :: string
  created_by :: "string option"

record google_token_row =
  user_id :: string
  access_token :: string
  refresh_token :: string
  token_expiry :: date

record CalendarEvent =
  summary :: string
  description :: "string option"
  startTime :: string
  endTime :: string
  attendees :: "string list option"
  createMeet :: "bool option"

text \<open>What the code reads of the event Google returns: its id, its link and the \<open>uri\<close> of
  its first entry point of type 'video'.\<close>

record created_event =
  created_id :: "string option"
  htmlLink :: "string option"
  video_uri :: "string option"

text \<open>The outcome of a \<open>fetch\<close>: it throws (also when reading the body throws), or answers
  with a status outside 2xx, or answers ok with the parsed body.\<close>

datatype 'a fetched = Throws | NotOk | OkWith 'a

datatype pg_error = Unavailable | ForeignKeyViolation | InvalidInput | NumericValueOutOfRange

datatype thrown = BodyNotJson | Postgrest pg_error | FetchFailed

text \<open>Every call a handler issues to the database (writes) or to another service, in order.\<close>

datatype effect =
    TeamsTokenRequest
  | TeamsMeetingRequest
  | InterviewsInsert string string int string "string option" "string option"
  | ApplicationsUpdate string application_status
  | InvokeSendEmail "string option"
  | InvokeSlackNotify
  | GoogleTokenRefresh
  | TokensDelete string
  | TokensUpdate string
  | GoogleCalendarList
  | GoogleFreeBusy
  | GoogleCreateEvent

text \<open>
  The state the edge functions run against: the tables, the environment variables, the
  clock, and the answers of the services they call (Supabase Auth, Microsoft Graph, Google).
  \<open>db_available\<close> is false when every database call returns an error;
  \<open>valid_timestamptz\<close> is PostgreSQL's input check for \<open>TIMESTAMPTZ\<close>; \<open>Date_parse\<close> is
  \<open>new Date(string)\<close>; \<open>error_message e\<close> is what
  \<open>error instanceof Error ? error.message : 'Unknown error'\<close> gives for a thrown value.
\<close>

record world =
  applications_table :: "application_row list"
  interviews_table :: "interview_row list"
  hr_google_tokens :: "google_token_row list"
  next_uuid :: nat
  db_available :: bool
  valid_timestamptz :: "string \<Rightarrow> bool"
  Date_parse :: "string \<Rightarrow> date"
  error_message :: "thrown \<Rightarrow> string"
  now :: millis
  MS_CLIENT_ID :: "string option"
  MS_CLIENT_SECRET :: "string option"
  MS_TENANT_ID :: "string option"
  GOOGLE_CLIENT_ID :: "string option"
  GOOGLE_CLIENT_SECRET :: "string option"
  teams_token :: "string fetched"
  teams_meeting :: "(string option \<times> string option) fetched"
  getUser :: "string \<Rightarrow> string option"
  google_refresh :: "string option fetched"
  google_calendar_list :: "string list option option"
  google_freebusy :: "string \<Rightarrow> string \<Rightarrow> string list \<Rightarrow> BusySlot list list fetched"
  google_create_event :: "CalendarEvent \<Rightarrow> created_event fetched"
  log :: "effect list"

definition emit :: "effect \<Rightarrow> world \<Rightarrow> world" where
  "emit e w = w\<lparr>log := log w @ [e]\<rparr>"

text \<open>JavaScript truthiness of an optional string: \<open>undefined\<close>, \<open>null\<close> and \<open>''\<close> are falsy.\<close>

definition truthy :: "string option \<Rightarrow> bool" where
  "truthy s = (case s of None \<Rightarrow> False | Some x \<Rightarrow> x \<noteq> [])"

text \<open>\<open>s || null\<close>\<close>

definition or_null :: "string option \<Rightarrow> string option" where
  "or_null s = (if truthy s then s else None)"

subsection \<open>Requests and responses\<close>

record 'b http_request =
  http_method :: string
  authorization :: "string option"
  json :: "'b option"

text \<open>
  A numeric field of a JSON body as the handler reads it: missing (\<open>undefined\<close>),
  \<open>null\<close>, or a number. In arithmetic \<open>undefined\<close> is NaN and \<open>null\<close> is 0; all three of
  \<open>undefined\<close>, \<open>null\<close> and 0 are falsy. Numbers are integers here.
\<close>

datatype json_number = Absent | JsonNull | Num int

text \<open>\<open>JSON.stringify\<close> of a number: NaN (here \<open>None\<close>) is written as \<open>null\<close>.\<close>

definition json_number_of :: "int option \<Rightarrow> json_number" where
  "json_number_of n = (case n of None \<Rightarrow> JsonNull | Some k \<Rightarrow> Num k)"

record ScheduleRequest =
  applicationId :: "string option"
  scheduledAt :: "string option"
  durationMinutes :: json_number
  interviewType_r :: "string option"
  candidateEmail :: "string option"
  candidateName :: "string option"
  jobTitle :: "string option"
  meetingUrl :: "string option"
  meetingId :: "string option"

datatype action = get_free_busy | create_event | check_connection | other_action

record CalendarRequest =
  action :: action
  timeMin :: "string option"
  timeMax :: "string option"
  event :: "CalendarEvent option"

text \<open>
  The JSON bodies the two functions answer with: \<open>{error, code?}\<close>;
  \<open>{success: true, interview, meetingUrl, message}\<close>; \<open>{connected, configured}\<close>;
  \<open>{busySlots}\<close>; \<open>{eventId, htmlLink, meetLink}\<close>.
\<close>

datatype response_body =
    NoBody
  | ErrorBody string "string option"
  | ScheduledBody interview_row "string option" string
  | ConnectionBody bool bool
  | BusySlotsBody "BusySlot list"
  | EventBody "string option" "string option" "string option"

record response =
  status :: nat
  body :: response_body

section \<open>The edge function schedule-interview\<close>

text \<open>
  The block "If no meeting URL provided, try Microsoft Teams", entered with the current
  \<open>meetingUrl\<close> and \<open>meetingId\<close>. Everything inside runs under \<open>try\<close>: a throwing \<open>fetch\<close>,
  and the \<open>RangeError\<close> of \<open>toISOString\<close> on an invalid start or end time, leave both
  variables as they were. The end time \<open>startTime + durationMinutes * 60000\<close> is NaN when
  \<open>durationMinutes\<close> is undefined; with \<open>null\<close> it is the start time itself.
\<close>

definition createTeamsMeeting ::
  "world \<Rightarrow> string \<Rightarrow> json_number \<Rightarrow> string option \<Rightarrow> string option
     \<Rightarrow> (string option \<times> string option) \<times> world" where
  "createTeamsMeeting w scheduledAt_s durationMinutes_n url mid =
     (if truthy (MS_CLIENT_ID w) \<and> truthy (MS_CLIENT_SECRET w) \<and> truthy (MS_TENANT_ID w) then
        (let w1 = emit TeamsTokenRequest w
         in case teams_token w of
              Throws \<Rightarrow> ((url, mid), w1)
            | NotOk \<Rightarrow> ((url, mid), w1)
            | OkWith tok \<Rightarrow>
                (case Date_parse w scheduledAt_s of
                   InvalidDate \<Rightarrow> ((url, mid), w1)
                 | Date startTime_t \<Rightarrow>
                     if durationMinutes_n = Absent then ((url, mid), w1)
                     else
                       (let w2 = emit TeamsMeetingRequest w1
                        in case teams_meeting w of
                             Throws \<Rightarrow> ((url, mid), w2)
                           | NotOk \<Rightarrow> ((url, mid), w2)
                           | OkWith meetingData \<Rightarrow> (meetingData, w2))))
      else ((url, mid), w))"

text \<open>
  The value written to \<open>duration_minutes\<close>: \<open>durationMinutes || 60\<close>.
\<close>

definition duration_or_default :: "json_number \<Rightarrow> int" where
  "duration_or_default d = (case d of Num n \<Rightarrow> if n = 0 then 60 else n | _ \<Rightarrow> 60)"

text \<open>
  \<open>supabase.from('interviews').insert({...}).select().single()\<close> against the table of the
  migration: \<open>application_id\<close> references \<open>applications(id)\<close>, \<open>scheduled_at\<close> is a
  \<open>TIMESTAMPTZ\<close>, \<open>duration_minutes\<close> is an \<open>INTEGER\<close> (32 bits, signed), the key is
  generated, \<open>notes\<close> and \<open>created_by\<close> take their default NULL. The table has no other
  constraint; in particular none on the pair of application and time.
\<close>

definition insertInterview ::
  "world \<Rightarrow> string \<Rightarrow> string \<Rightarrow> int \<Rightarrow> string \<Rightarrow> string option \<Rightarrow> string option
     \<Rightarrow> (pg_error + interview_row) \<times> world" where
  "insertInterview w appId at dur ty url mid =
     (let w1 = emit (InterviewsInsert appId at dur ty url mid) w
      in if \<not> db_available w then (Inl Unavailable, w1)
         else if \<not> list_ex (\<lambda>a. application_pk a = appId) (applications_table w)
           then (Inl ForeignKeyViolation, w1)
         else if \<not> valid_timestamptz w at then (Inl InvalidInput, w1)
         else if dur < - 2147483648 \<or> 2147483647 < dur then (Inl NumericValueOutOfRange, w1)
         else
           (let row = \<lparr>interview_id = next_uuid w, application_id = appId, scheduled_at = at,
                        duration_minutes = dur, interview_type = ty, meeting_url = url,
                        meeting_id = mid, interview_notes = None,
                        interview_status = ''scheduled'', created_by = None\<rparr>
            in (Inr row,
                w1\<lparr>interviews_table := interviews_table w @ [row],
                   next_uuid := Suc (next_uuid w)\<rparr>)))"

text \<open>\<open>supabase.from('applications').update({status}).eq('id', applicationId)\<close>; the
  handler only logs its error.\<close>

definition updateApplicationStatus :: "world \<Rightarrow> string \<Rightarrow> application_status \<Rightarrow> world" where
  "updateApplicationStatus w appId st =
     (let w1 = emit (ApplicationsUpdate appId st) w
      in if \<not> db_available w then w1
         else w1\<lparr>applications_table :=
                   map (\<lambda>a. if application_pk a = appId then a\<lparr>application_status := st\<rparr> else a)
                       (applications_table w)\<rparr>)"

text \<open>
  The handler of schedule-interview. The confirmation e-mail and the Slack message are
  invoked under \<open>try\<close>/\<open>catch\<close> and their results ignored; the log records that they were
  invoked (with the recipient of the e-mail), not their HTML.
\<close>

definition schedule_interview ::
  "world \<Rightarrow> ScheduleRequest http_request \<Rightarrow> response \<times> world" where
  "schedule_interview w req =
     (if http_method req = ''OPTIONS'' then (\<lparr>status = 200, body = NoBody\<rparr>, w)
      else
        (case json req of
           None \<Rightarrow> (\<lparr>status = 500, body = ErrorBody (error_message w BodyNotJson) None\<rparr>, w)
         | Some r \<Rightarrow>
             if \<not> truthy (applicationId r) \<or> \<not> truthy (scheduledAt r) then
               (\<lparr>status = 400,
                 body = ErrorBody ''Application ID and scheduled time are required'' None\<rparr>, w)
             else
               (let appId = (case applicationId r of None \<Rightarrow> [] | Some a \<Rightarrow> a);
                    at = (case scheduledAt r of None \<Rightarrow> [] | Some a \<Rightarrow> a);
                    url0 = or_null (meetingUrl r);
                    mid0 = or_null (meetingId r);
                    ((url, mid), w1) =
                      (if \<not> truthy url0
                       then createTeamsMeeting w at (durationMinutes r) url0 mid0
                       else ((url0, mid0), w));
                    dur = duration_or_default (durationMinutes r);
                    ty = (if truthy (interviewType_r r)
                          then (case interviewType_r r of None \<Rightarrow> [] | Some t \<Rightarrow> t)
                          else ''Technical'')
                in case insertInterview w1 appId at dur ty url mid of
                     (Inl interviewError, w2) \<Rightarrow>
                       (\<lparr>status = 500,
                         body = ErrorBody (error_message w (Postgrest interviewError)) None\<rparr>, w2)
                   | (Inr interview_r, w2) \<Rightarrow>
                       (let w3 = updateApplicationStatus w2 appId interview;
                            w4 = emit (InvokeSendEmail (candidateEmail r)) w3;
                            w5 = emit InvokeSlackNotify w4
                        in (\<lparr>status = 200,
                             body = ScheduledBody interview_r url
                                      (if truthy url
                                       then ''Interview scheduled with video meeting link''
                                       else ''Interview scheduled (add meeting link manually)'')\<rparr>,
                            w5)))))"

section \<open>The edge function google-calendar\<close>

text \<open>\<open>s.replace(pat, '')\<close>: the first occurrence of \<open>pat\<close> is removed.\<close>

fun remove_first :: "string \<Rightarrow> string \<Rightarrow> string" where
  "remove_first pat [] = []"
| "remove_first pat (c # cs) =
     (if take (length pat) (c # cs) = pat then drop (length pat) (c # cs)
      else c # remove_first pat cs)"

text \<open>\<open>.from('hr_google_tokens').select('*').eq('user_id', id).single()\<close>: the row when
  exactly one matches, an error (no data) otherwise.\<close>

definition selectTokens :: "world \<Rightarrow> string \<Rightarrow> google_token_row option" where
  "selectTokens w uid =
     (if \<not> db_available w then None
      else (case filter (\<lambda>r. user_id r = uid) (hr_google_tokens w) of
              [r] \<Rightarrow> Some r
            | _ \<Rightarrow> None))"

text \<open>
  The block "Check if token needs refresh": the access token to use, or the response the
  handler returns instead. \<open>refreshAccessToken\<close> is null when Google answers not-ok; a throwing
  \<open>fetch\<close> reaches the handler's \<open>catch\<close>. The new expiry is one hour after the clock.
\<close>

definition freshAccessToken ::
  "world \<Rightarrow> string \<Rightarrow> google_token_row \<Rightarrow> (response + string) \<times> world" where
  "freshAccessToken w uid tokenData =
     (if isBefore (token_expiry tokenData) (Date (now w)) then
        (if \<not> truthy (GOOGLE_CLIENT_ID w) \<or> \<not> truthy (GOOGLE_CLIENT_SECRET w) then
           (Inl \<lparr>status = 500, body = ErrorBody ''OAuth not configured'' None\<rparr>, w)
         else
           (let w1 = emit GoogleTokenRefresh w
            in case google_refresh w of
                 Throws \<Rightarrow>
                   (Inl \<lparr>status = 500, body = ErrorBody (error_message w FetchFailed) None\<rparr>, w1)
               | refreshed \<Rightarrow>
                   (let newToken = (case refreshed of OkWith t \<Rightarrow> or_null t | _ \<Rightarrow> None)
                    in case newToken of
                         None \<Rightarrow>
                           (Inl \<lparr>status = 400,
                                 body = ErrorBody
                                          ''Token expired, please reconnect Google Calendar''
                                          (Some ''TOKEN_EXPIRED'')\<rparr>,
                            (emit (TokensDelete uid) w1)
                              \<lparr>hr_google_tokens :=
                                  filter (\<lambda>r. user_id r \<noteq> uid) (hr_google_tokens w)\<rparr>)
                       | Some tok \<Rightarrow>
                           (Inr tok,
                            (emit (TokensUpdate uid) w1)
                              \<lparr>hr_google_tokens :=
                                  map (\<lambda>r. if user_id r = uid
                                           then r\<lparr>access_token := tok,
                                                  token_expiry := Date (now w + msPerHour)\<rparr>
                                           else r)
                                      (hr_google_tokens w)\<rparr>))))
      else (Inr (access_token tokenData), w))"

definition getFreeBusy :: "world \<Rightarrow> CalendarRequest \<Rightarrow> response \<times> world" where
  "getFreeBusy w r =
     (if \<not> truthy (timeMin r) \<or> \<not> truthy (timeMax r) then
        (\<lparr>status = 400, body = ErrorBody ''timeMin and timeMax required'' None\<rparr>, w)
      else
        (let w1 = emit GoogleCalendarList w
         in case google_calendar_list w of
              None \<Rightarrow>
                (\<lparr>status = 500, body = ErrorBody (error_message w FetchFailed) None\<rparr>, w1)
            | Some items \<Rightarrow>
                (let calendarIds = (case items of None \<Rightarrow> [''primary''] | Some ids \<Rightarrow> ids);
                     w2 = emit GoogleFreeBusy w1
                 in case google_freebusy w
                           (case timeMin r of None \<Rightarrow> [] | Some t \<Rightarrow> t)
                           (case timeMax r of None \<Rightarrow> [] | Some t \<Rightarrow> t) calendarIds of
                      Throws \<Rightarrow>
                        (\<lparr>status = 500, body = ErrorBody (error_message w FetchFailed) None\<rparr>,
                         w2)
                    | NotOk \<Rightarrow>
                        (\<lparr>status = 500,
                          body = ErrorBody ''Failed to get calendar availability'' None\<rparr>, w2)
                    | OkWith calendars \<Rightarrow>
                        (\<lparr>status = 200, body = BusySlotsBody (concat calendars)\<rparr>, w2))))"

definition createEvent :: "world \<Rightarrow> CalendarRequest \<Rightarrow> response \<times> world" where
  "createEvent w r =
     (case event r of
        None \<Rightarrow> (\<lparr>status = 400, body = ErrorBody ''Event details required'' None\<rparr>, w)
      | Some ev \<Rightarrow>
          (let w1 = emit GoogleCreateEvent w
           in case google_create_event w ev of
                Throws \<Rightarrow>
                  (\<lparr>status = 500, body = ErrorBody (error_message w FetchFailed) None\<rparr>, w1)
              | NotOk \<Rightarrow>
                  (\<lparr>status = 500,
                    body = ErrorBody ''Failed to create calendar event'' None\<rparr>, w1)
              | OkWith createdEvent \<Rightarrow>
                  (\<lparr>status = 200,
                    body = EventBody (created_id createdEvent) (htmlLink createdEvent)
                             (or_null (video_uri createdEvent))\<rparr>, w1)))"

definition google_calendar ::
  "world \<Rightarrow> CalendarRequest http_request \<Rightarrow> response \<times> world" where
  "google_calendar w req =
     (if http_method req = ''OPTIONS'' then (\<lparr>status = 200, body = NoBody\<rparr>, w)
      else if \<not> truthy (authorization req) then
        (\<lparr>status = 401, body = ErrorBody ''Unauthorized'' None\<rparr>, w)
      else
        (case getUser w (remove_first ''Bearer ''
                           (case authorization req of None \<Rightarrow> [] | Some h \<Rightarrow> h)) of
           None \<Rightarrow> (\<lparr>status = 401, body = ErrorBody ''Invalid token'' None\<rparr>, w)
         | Some uid \<Rightarrow>
             (case json req of
                None \<Rightarrow>
                  (\<lparr>status = 500, body = ErrorBody (error_message w BodyNotJson) None\<rparr>, w)
              | Some r \<Rightarrow>
                  (let tokenData = selectTokens w uid
                   in if action r = check_connection then
                        (\<lparr>status = 200,
                          body = ConnectionBody (tokenData \<noteq> None)
                                   (truthy (GOOGLE_CLIENT_ID w)
                                    \<and> truthy (GOOGLE_CLIENT_SECRET w))\<rparr>, w)
                      else
                        (case tokenData of
                           None \<Rightarrow>
                             (\<lparr>status = 400,
                               body = ErrorBody ''Google Calendar not connected''
                                        (Some ''NOT_CONNECTED'')\<rparr>, w)
                         | Some td \<Rightarrow>
                             (case freshAccessToken w uid td of
                                (Inl resp, w1) \<Rightarrow> (resp, w1)
                              | (Inr accessToken, w1) \<Rightarrow>
                                  (case action r of
                                     get_free_busy \<Rightarrow> getFreeBusy w1 r
                                   | create_event \<Rightarrow> createEvent w1 r
                                   | _ \<Rightarrow>
                                       (\<lparr>status = 400,
                                         body = ErrorBody ''Invalid action'' None\<rparr>,
                                        w1))))))))"

section \<open>The dialog's calls to the backend\<close>

text \<open>
  \<open>supabase.functions.invoke\<close> returns \<open>{data, error}\<close>: the body of a 2xx response as
  \<open>data\<close>, and an error with no data for any other status. The edge function is taken to be
  reachable. \<open>session\<close> is the bearer token the client sends.
\<close>

definition invoke_data :: "response \<Rightarrow> response_body option" where
  "invoke_data resp =
     (if 200 \<le> status resp \<and> status resp < 300 then Some (body resp) else None)"

definition checkCalendarConnection :: "string \<Rightarrow> dialog \<Rightarrow> world \<Rightarrow> dialog \<times> world" where
  "checkCalendarConnection session st w =
     (let (resp, w1) =
            google_calendar w
              \<lparr>http_method = ''POST'', authorization = Some (''Bearer '' @ session),
               json = Some \<lparr>action = check_connection, timeMin = None, timeMax = None,
                            event = None\<rparr>\<rparr>
      in case invoke_data resp of
           Some (ConnectionBody connected configured) \<Rightarrow>
             (st\<lparr>calendarConnected := connected, checkingCalendar := False\<rparr>, w1)
         | _ \<Rightarrow> (st\<lparr>checkingCalendar := False\<rparr>, w1))"

text \<open>
  \<open>fetchBusySlots(date)\<close>, from the state it starts in to the state after its \<open>finally\<close>.
  While the request is in flight the state is that of \<open>fetchBusySlots_pending\<close>. The busy
  set is replaced only when the call returns data with \<open>busySlots\<close>; an error, and any
  exception (caught and logged), leave it as it was.
\<close>

definition fetchBusySlots_pending :: "dialog \<Rightarrow> dialog" where
  "fetchBusySlots_pending st = st\<lparr>loadingBusy := True\<rparr>"

definition fetchBusySlots ::
  "platform \<Rightarrow> string \<Rightarrow> dialog \<Rightarrow> world \<Rightarrow> millis \<Rightarrow> dialog \<times> world" where
  "fetchBusySlots P session st w date_t =
     (case setHours P (Date date_t) (Some 0) (Some 0) 0 0 of
        InvalidDate \<Rightarrow> (st\<lparr>loadingBusy := False\<rparr>, w)
      | Date startOfDay \<Rightarrow>
          (case setHours P (Date date_t) (Some 23) (Some 59) 59 999 of
             InvalidDate \<Rightarrow> (st\<lparr>loadingBusy := False\<rparr>, w)
           | Date endOfDay \<Rightarrow>
               (let (resp, w1) =
                      google_calendar w
                        \<lparr>http_method = ''POST'', authorization = Some (''Bearer '' @ session),
                         json = Some \<lparr>action = get_free_busy,
                                      timeMin = Some (toISOString P startOfDay),
                                      timeMax = Some (toISOString P endOfDay),
                                      event = None\<rparr>\<rparr>
                in case invoke_data resp of
                     Some (BusySlotsBody slots) \<Rightarrow>
                       (st\<lparr>busySlots := slots, loadingBusy := False\<rparr>, w1)
                   | _ \<Rightarrow> (st\<lparr>loadingBusy := False\<rparr>, w1))))"

text \<open>The effect "Fetch busy slots when date changes".\<close>

definition fetchBusyEffect ::
  "platform \<Rightarrow> string \<Rightarrow> dialog \<Rightarrow> world \<Rightarrow> dialog \<times> world" where
  "fetchBusyEffect P session st w =
     (case selectedDate st of
        None \<Rightarrow> (st, w)
      | Some date_t \<Rightarrow>
          if calendarConnected st then fetchBusySlots P session st w date_t else (st, w))"

text \<open>The calendar's \<open>onSelect\<close>: \<open>setSelectedDate(date); setSelectedTime('')\<close>.\<close>

definition onSelect :: "dialog \<Rightarrow> millis option \<Rightarrow> dialog" where
  "onSelect st date_o = st\<lparr>selectedDate := date_o, selectedTime := []\<rparr>"

text \<open>
  The two effects that depend on \<open>selectedDate\<close>, as they run after the render that follows a
  change of date. An effect reads the state of the render that scheduled it, so both read
  \<open>st\<close>: the fetch effect calls \<open>fetchBusySlots\<close>, whose \<open>setLoadingBusy(true)\<close> only the next
  render sees, and the auto-select effect tests the \<open>loadingBusy\<close> of \<open>st\<close>. Their state
  updates touch different fields. The result is the state while the request is in flight
  (or, when no request is made, the state after the auto-select effect).
\<close>

definition dateChangeEffects :: "platform \<Rightarrow> dialog \<Rightarrow> dialog" where
  "dateChangeEffects P st =
     (let selected = autoSelectEffect P st
      in if selectedDate st \<noteq> None \<and> calendarConnected st
         then fetchBusySlots_pending selected
         else selected)"

section \<open>The mutation scheduleInterview\<close>

text \<open>
  What the mutation function can throw: an \<open>Error\<close> with a message, the \<open>RangeError\<close> of
  \<open>toISOString\<close> on an Invalid Date, and the error \<open>invoke\<close> returns for a non-2xx response.
\<close>

datatype client_error = JsError string | RangeError | FunctionsHttpError

definition message :: "client_error \<Rightarrow> string" where
  "message e =
     (case e of
        JsError m \<Rightarrow> m
      | RangeError \<Rightarrow> ''Invalid time value''
      | FunctionsHttpError \<Rightarrow> ''Edge Function returned a non-2xx status code'')"

text \<open>
  The block "Create Google Calendar event with Meet if connected": the \<open>try\<close> with its
  \<open>catch\<close>. It yields \<open>meetingUrl\<close> and \<open>calendarEventId\<close>, both null unless the call
  returned data without an error.
\<close>

definition createCalendarEvent ::
  "platform \<Rightarrow> string \<Rightarrow> dialog \<Rightarrow> world \<Rightarrow> Application \<Rightarrow> date \<Rightarrow> date
     \<Rightarrow> (string option \<times> string option) \<times> dialog \<times> world" where
  "createCalendarEvent P session st w app scheduledAt_d endTime_d =
     (case scheduledAt_d of
        InvalidDate \<Rightarrow>
          ((None, None),
           st\<lparr>toasts := toasts st
                  @ [ToastError ''Calendar event creation failed, but continuing with scheduling'']\<rparr>,
           w)
      | Date s \<Rightarrow>
          (case endTime_d of
             InvalidDate \<Rightarrow>
               ((None, None),
                st\<lparr>toasts := toasts st
                       @ [ToastError
                            ''Calendar event creation failed, but continuing with scheduling'']\<rparr>,
                w)
           | Date e \<Rightarrow>
               (let (resp, w1) =
                      google_calendar w
                        \<lparr>http_method = ''POST'', authorization = Some (''Bearer '' @ session),
                         json = Some
                           \<lparr>action = create_event, timeMin = None, timeMax = None,
                            event = Some
                              \<lparr>summary = ''Interview: '' @ full_name app @ '' - '' @ title app,
                               description = Some (interviewType st @ '' interview with ''
                                  @ full_name app @ '' for '' @ title app @ '' position.''),
                               startTime = toISOString P s, endTime = toISOString P e,
                               attendees = Some [email app], createMeet = Some True\<rparr>\<rparr>\<rparr>
                in case invoke_data resp of
                     Some (EventBody eventId link meetLink) \<Rightarrow> ((meetLink, eventId), st, w1)
                   | _ \<Rightarrow> ((None, None), st, w1))))"

text \<open>
  \<open>mutationFn\<close>: the thrown error or the returned \<open>{...data, meetingUrl}\<close> (the response body
  and the client's own \<open>meetingUrl\<close>), with the dialog and the backend afterwards.
\<close>

definition mutationFn ::
  "platform \<Rightarrow> string \<Rightarrow> dialog \<Rightarrow> world
     \<Rightarrow> (client_error + (response_body \<times> string option)) \<times> dialog \<times> world" where
  "mutationFn P session st w =
     (case selectedDate st of
        None \<Rightarrow> (Inl (JsError ''Please select a candidate, date and time''), st, w)
      | Some date_t \<Rightarrow>
          if selectedApplication st = [] \<or> selectedTime st = [] then
            (Inl (JsError ''Please select a candidate, date and time''), st, w)
          else
            (case find (\<lambda>a. app_id a = selectedApplication st)
                    (case applications st of None \<Rightarrow> [] | Some apps \<Rightarrow> apps) of
               None \<Rightarrow> (Inl (JsError ''Application not found''), st, w)
             | Some app \<Rightarrow>
                 (let scheduledAt_d = combineDateTime P date_t (selectedTime st);
                      endTime_d = addMinutes scheduledAt_d (parseInt (duration st));
                      ((url, calendarEventId), st1, w1) =
                        (if calendarConnected st \<and> createMeetLink st
                         then createCalendarEvent P session st w app scheduledAt_d endTime_d
                         else ((None, None), st, w))
                  in case scheduledAt_d of
                       InvalidDate \<Rightarrow> (Inl RangeError, st1, w1)
                     | Date s \<Rightarrow>
                         (let (resp, w2) =
                                schedule_interview w1
                                  \<lparr>http_method = ''POST'',
                                   authorization = Some (''Bearer '' @ session),
                                   json = Some
                                     \<lparr>applicationId = Some (selectedApplication st),
                                      scheduledAt = Some (toISOString P s),
                                      durationMinutes = json_number_of (parseInt (duration st)),
                                      interviewType_r = Some (interviewType st),
                                      candidateEmail = Some (email app),
                                      candidateName = Some (full_name app),
                                      jobTitle = Some (title app),
                                      meetingUrl = url,
                                      meetingId = calendarEventId\<rparr>\<rparr>
                          in case invoke_data resp of
                               None \<Rightarrow> (Inl FunctionsHttpError, st1, w2)
                             | Some data \<Rightarrow> (Inr (data, url), st1, w2)))))"

text \<open>\<open>scheduleInterview.mutate()\<close>: the mutation function followed by \<open>onError\<close> or
  \<open>onSuccess\<close>.\<close>

definition scheduleInterview :: "platform \<Rightarrow> string \<Rightarrow> dialog \<Rightarrow> world \<Rightarrow> dialog \<times> world" where
  "scheduleInterview P session st w =
     (case mutationFn P session st w of
        (Inl e, st1, w1) \<Rightarrow>
          (st1\<lparr>toasts := toasts st1
                  @ [ToastError (if message e \<noteq> [] then message e
                                 else ''Failed to schedule interview'')]\<rparr>, w1)
      | (Inr (data, url), st1, w1) \<Rightarrow>
          (resetForm
             (st1\<lparr>toasts := toasts st1
                     @ [ToastSuccess
                          (if truthy url then ''Interview scheduled with Google Meet link!''
                           else (case data of
                                   ScheduledBody i u m \<Rightarrow>
                                     if m \<noteq> [] then m else ''Interview scheduled successfully''
                                 | _ \<Rightarrow> ''Interview scheduled successfully''))],
                  is_open := False\<rparr>), w1))"

section \<open>Definitions used to state the properties, and example states\<close>

text \<open>
  The spec's description of the grid, for comparison with \<open>timeSlots\<close>: the label "HH:MM" of
  a minute of the day, and the labels from 09:00 on in steps of 30 minutes.
\<close>

definition two_digits :: "nat \<Rightarrow> string" where
  "two_digits n = [''0123456789'' ! (n div 10 mod 10), ''0123456789'' ! (n mod 10)]"

definition slot_label :: "nat \<Rightarrow> string" where
  "slot_label m = two_digits (m div 60) @ '':'' @ two_digits (m mod 60)"

definition spec_grid :: "string list" where
  "spec_grid = map (\<lambda>i. slot_label (9 * 60 + 30 * i)) [0..<17]"

definition grid_times :: "(int \<times> int) list" where
  "grid_times =
     [(9, 0), (9, 30), (10, 0), (10, 30), (11, 0), (11, 30), (12, 0), (12, 30), (13, 0),
      (13, 30), (14, 0), (14, 30), (15, 0), (15, 30), (16, 0), (16, 30), (17, 0)]"

definition example_platform :: platform where
  "example_platform =
     \<lparr>LocalTZA = (\<lambda>t isUTC. 0),
      parseISO = (\<lambda>s. case map_of [(''2026-01-05T00:00:00Z'', 1767571200000),
                                      (''2026-01-05T09:00:00Z'', 1767603600000),
                                      (''2026-01-05T10:00:00Z'', 1767607200000),
                                      (''2026-01-05T11:00:00Z'', 1767610800000),
                                      (''2026-01-05T12:00:00Z'', 1767614400000),
                                      (''2026-01-05T17:00:00Z'', 1767632400000),
                                      (''2026-01-05T18:00:00Z'', 1767636000000)] s of
                       None \<Rightarrow> InvalidDate | Some t \<Rightarrow> Date t),
      toISOString = (\<lambda>t. case map_of [(1767571200000, ''2026-01-05T00:00:00.000Z''),
                                          (1767603600000, ''2026-01-05T09:00:00.000Z''),
                                          (1767607200000, ''2026-01-05T10:00:00.000Z''),
                                          (1767657599999, ''2026-01-05T23:59:59.999Z'')] t of
                           None \<Rightarrow> ''1970-01-01T00:00:00.000Z'' | Some s \<Rightarrow> s)\<rparr>"

definition example_dialog :: dialog where
  "example_dialog =
     \<lparr>is_open = True, selectedApplication = ''app-1'', selectedDate = Some 1767571200000,
      selectedTime = [], duration = ''60'', interviewType = ''Technical'',
      createMeetLink = True,
      busySlots = [\<lparr>start = ''2026-01-05T10:00:00Z'', end' = ''2026-01-05T11:00:00Z''\<rparr>],
      loadingBusy = False, calendarConnected = True, checkingCalendar = False,
      applications = Some [\<lparr>app_id = ''app-1'', full_name = ''Ada'',
                             email = ''ada@example.org'', title = ''Engineer''\<rparr>],
      toasts = []\<rparr>"

definition free_dialog :: dialog where
  "free_dialog = example_dialog\<lparr>busySlots := []\<rparr>"

definition booked_dialog :: dialog where
  "booked_dialog =
     example_dialog\<lparr>busySlots :=
       [\<lparr>start = ''2026-01-05T00:00:00Z'', end' = ''2026-01-05T18:00:00Z''\<rparr>]\<rparr>"

text \<open>Two busy intervals, 09:00 to 12:00 and 12:00 to 18:00.\<close>

definition split_day_dialog :: dialog where
  "split_day_dialog =
     example_dialog\<lparr>busySlots :=
       [\<lparr>start = ''2026-01-05T09:00:00Z'', end' = ''2026-01-05T12:00:00Z''\<rparr>,
        \<lparr>start = ''2026-01-05T12:00:00Z'', end' = ''2026-01-05T18:00:00Z''\<rparr>]\<rparr>"

definition office_hours_dialog :: dialog where
  "office_hours_dialog =
     example_dialog\<lparr>busySlots :=
       [\<lparr>start = ''2026-01-05T09:00:00Z'', end' = ''2026-01-05T17:00:00Z''\<rparr>]\<rparr>"

text \<open>The open dialog before a date is picked, connected and not connected.\<close>

definition idle_dialog :: dialog where
  "idle_dialog = free_dialog\<lparr>selectedDate := None\<rparr>"

definition unconnected_dialog :: dialog where
  "unconnected_dialog = idle_dialog\<lparr>calendarConnected := False\<rparr>"

text \<open>The calls that follow the insert in schedule-interview: the status update of the
  application, the e-mail and the Slack message.\<close>

definition downstream :: "effect \<Rightarrow> bool" where
  "downstream e =
     (case e of
        ApplicationsUpdate a s \<Rightarrow> True
      | InvokeSendEmail to \<Rightarrow> True
      | InvokeSlackNotify \<Rightarrow> True
      | _ \<Rightarrow> False)"

text \<open>When the database refuses the insert into \<open>interviews\<close> (see \<open>insert_refused_iff\<close>).\<close>

definition insert_refused :: "world \<Rightarrow> string \<Rightarrow> string \<Rightarrow> int \<Rightarrow> bool" where
  "insert_refused w appId at dur =
     (\<not> db_available w
      \<or> \<not> list_ex (\<lambda>a. application_pk a = appId) (applications_table w)
      \<or> \<not> valid_timestamptz w at
      \<or> dur < - 2147483648 \<or> 2147483647 < dur)"

text \<open>The meeting link and id the handler holds when it reaches the insert, and the calls
  it has logged by then.\<close>

definition meeting_before_insert ::
  "world \<Rightarrow> ScheduleRequest \<Rightarrow> string \<Rightarrow> (string option \<times> string option) \<times> world" where
  "meeting_before_insert w r at =
     (if \<not> truthy (or_null (meetingUrl r))
      then createTeamsMeeting w at (durationMinutes r) (or_null (meetingUrl r))
             (or_null (meetingId r))
      else ((or_null (meetingUrl r), or_null (meetingId r)), w))"

definition inserted_duration :: "ScheduleRequest \<Rightarrow> int" where
  "inserted_duration r = duration_or_default (durationMinutes r)"

definition inserted_type :: "ScheduleRequest \<Rightarrow> string" where
  "inserted_type r =
     (if truthy (interviewType_r r)
      then (case interviewType_r r of None \<Rightarrow> [] | Some t \<Rightarrow> t) else ''Technical'')"

definition example_world :: world where
  "example_world =
     \<lparr>applications_table = [\<lparr>application_pk = ''app-1'', application_status = applied\<rparr>],
      interviews_table = [],
      hr_google_tokens = [],
      next_uuid = 0,
      db_available = True,
      valid_timestamptz = (\<lambda>s. s \<noteq> []),
      Date_parse = (\<lambda>s. if s = ''2026-01-05T09:00:00.000Z'' then Date 1767603600000
                         else InvalidDate),
      error_message = (\<lambda>e. ''Unknown error''),
      now = 1767500000000,
      MS_CLIENT_ID = None, MS_CLIENT_SECRET = None, MS_TENANT_ID = None,
      GOOGLE_CLIENT_ID = Some ''client'', GOOGLE_CLIENT_SECRET = Some ''secret'',
      teams_token = NotOk, teams_meeting = NotOk,
      getUser = (\<lambda>t. if t = ''jwt-1'' then Some ''user-1'' else None),
      google_refresh = NotOk,
      google_calendar_list = Some None,
      google_freebusy = (\<lambda>tmin tmax ids. OkWith [[]]),
      google_create_event = (\<lambda>ev. NotOk),
      log = []\<rparr>"

definition example_body :: ScheduleRequest where
  "example_body =
     \<lparr>applicationId = Some ''app-1'', scheduledAt = Some ''2026-01-05T09:00:00.000Z'',
      durationMinutes = Absent, interviewType_r = None,
      candidateEmail = Some ''ada@example.org'', candidateName = Some ''Ada'',
      jobTitle = Some ''Engineer'', meetingUrl = None, meetingId = None\<rparr>"

definition example_request :: "ScheduleRequest http_request" where
  "example_request = \<lparr>http_method = ''POST'', authorization = None, json = Some example_body\<rparr>"

text \<open>A request that gives a duration and no interview type, and one that gives an
  interview type and no duration.\<close>

definition duration_only_request :: "ScheduleRequest http_request" where
  "duration_only_request =
     \<lparr>http_method = ''POST'', authorization = None,
      json = Some (example_body\<lparr>durationMinutes := Num 45\<rparr>)\<rparr>"

definition type_only_request :: "ScheduleRequest http_request" where
  "type_only_request =
     \<lparr>http_method = ''POST'', authorization = None,
      json = Some (example_body\<lparr>interviewType_r := Some ''HR Screen''\<rparr>)\<rparr>"

definition unknown_application_request :: "ScheduleRequest http_request" where
  "unknown_application_request =
     \<lparr>http_method = ''POST'', authorization = None,
      json = Some (example_body\<lparr>applicationId := Some ''app-404''\<rparr>)\<rparr>"

definition stale_dialog :: dialog where
  "stale_dialog = example_dialog\<lparr>selectedDate := Some 1767657600000\<rparr>"

definition free_busy_request :: "CalendarRequest http_request" where
  "free_busy_request =
     \<lparr>http_method = ''POST'', authorization = Some ''Bearer jwt-1'',
      json = Some \<lparr>action = get_free_busy, timeMin = Some ''2026-01-06T00:00:00.000Z'',
                   timeMax = Some ''2026-01-06T23:59:59.999Z'', event = None\<rparr>\<rparr>"

text \<open>The request \<open>fetchBusySlots\<close> sends for a day that starts and ends at the given
  instants.\<close>

definition busy_query ::
  "platform \<Rightarrow> string \<Rightarrow> millis \<Rightarrow> millis \<Rightarrow> CalendarRequest http_request" where
  "busy_query P session startOfDay endOfDay =
     \<lparr>http_method = ''POST'', authorization = Some (''Bearer '' @ session),
      json = Some \<lparr>action = get_free_busy, timeMin = Some (toISOString P startOfDay),
                   timeMax = Some (toISOString P endOfDay), event = None\<rparr>\<rparr>"

text \<open>A backend whose stored credential expired before the clock, where Google refuses the
  refresh.\<close>

definition expired_world :: world where
  "expired_world =
     example_world
       \<lparr>hr_google_tokens :=
          [\<lparr>user_id = ''user-1'', access_token = ''access-0'', refresh_token = ''refresh-0'',
            token_expiry = Date 1767400000000\<rparr>]\<rparr>"

text \<open>A backend with a valid credential whose calendar is busy from 09:00 to 10:00, and the
  states of the dialog when a date is picked there: after the pick, while the availability
  request is in flight, and after its answer.\<close>

definition morning_busy_world :: world where
  "morning_busy_world =
     example_world
       \<lparr>hr_google_tokens :=
          [\<lparr>user_id = ''user-1'', access_token = ''access-1'', refresh_token = ''refresh-1'',
            token_expiry = Date 1767700000000\<rparr>],
        google_freebusy :=
          (\<lambda>tmin tmax ids.
             OkWith [[\<lparr>start = ''2026-01-05T09:00:00Z'', end' = ''2026-01-05T10:00:00Z''\<rparr>]])\<rparr>"

definition picked_dialog :: dialog where
  "picked_dialog = onSelect idle_dialog (Some 1767571200000)"

definition in_flight_dialog :: dialog where
  "in_flight_dialog = dateChangeEffects example_platform picked_dialog"

definition answered_dialog :: dialog where
  "answered_dialog =
     fst (fetchBusySlots example_platform ''jwt-1'' in_flight_dialog morning_busy_world
            1767571200000)"

text \<open>Two backends that agree on everything schedule-interview reads: they may differ in
  the log and in what concerns Google.\<close>

definition same_for_scheduling :: "world \<Rightarrow> world \<Rightarrow> bool" where
  "same_for_scheduling w w1 =
     (applications_table w1 = applications_table w
      \<and> interviews_table w1 = interviews_table w
      \<and> next_uuid w1 = next_uuid w
      \<and> db_available w1 = db_available w
      \<and> valid_timestamptz w1 = valid_timestamptz w
      \<and> Date_parse w1 = Date_parse w
      \<and> MS_CLIENT_ID w1 = MS_CLIENT_ID w
      \<and> MS_CLIENT_SECRET w1 = MS_CLIENT_SECRET w
      \<and> MS_TENANT_ID w1 = MS_TENANT_ID w
      \<and> teams_token w1 = teams_token w
      \<and> teams_meeting w1 = teams_meeting w)"

definition ready_dialog :: dialog where
  "ready_dialog = example_dialog\<lparr>selectedTime := ''09:00''\<rparr>"

definition example_app :: Application where
  "example_app =
     \<lparr>app_id = ''app-1'', full_name = ''Ada'', email = ''ada@example.org'',
      title = ''Engineer''\<rparr>"

text \<open>A backend whose Google credential is stored and valid, where Google refuses to create
  the event, and where Microsoft Teams is configured and creates a meeting.\<close>

definition teams_world :: world where
  "teams_world =
     example_world
       \<lparr>hr_google_tokens :=
          [\<lparr>user_id = ''user-1'', access_token = ''access-1'', refresh_token = ''refresh-1'',
            token_expiry = Date 1767700000000\<rparr>],
        MS_CLIENT_ID := Some ''ms-client'', MS_CLIENT_SECRET := Some ''ms-secret'',
        MS_TENANT_ID := Some ''ms-tenant'',
        teams_token := OkWith ''ms-token'',
        teams_meeting := OkWith (Some ''https://teams.example/join/1'', Some ''teams-1'')\<rparr>"

section \<open>Properties\<close>

subsection \<open>The slot grid\<close>

lemma spec_grid_unfold:
  "spec_grid =
     [slot_label 540, slot_label 570, slot_label 600, slot_label 630, slot_label 660,
      slot_label 690, slot_label 720, slot_label 750, slot_label 780, slot_label 810,
      slot_label 840, slot_label 870, slot_label 900, slot_label 930, slot_label 960,
      slot_label 990, slot_label 1020]"
  unfolding spec_grid_def by (simp add: upt_rec)

text \<open>
  C9. The slot grid is a constant of the component: it has exactly 17 entries, it is the
  sequence of labels "HH:MM" from 09:00 to 17:00 in steps of 30 minutes, its first entry is
  "09:00" and its last "17:00". It takes no argument, so it cannot vary with the date, the
  weekday or the duration.
\<close>

theorem timeSlots_grid:
  "length timeSlots = 17 \<and> timeSlots = spec_grid
   \<and> hd timeSlots = ''09:00'' \<and> last timeSlots = ''17:00''"
  unfolding spec_grid_unfold by (simp add: timeSlots_def slot_label_def two_digits_def)

subsection \<open>The conflict check\<close>

lemma isBefore_iff: "isBefore a b \<longleftrightarrow> (\<exists>x y. a = Date x \<and> b = Date y \<and> x < y)"
  by (cases a; cases b) auto

lemma isAfter_iff: "isAfter a b \<longleftrightarrow> (\<exists>x y. a = Date x \<and> b = Date y \<and> x > y)"
  by (cases a; cases b) auto

lemma isSlotBusy_iff:
  assumes "selectedDate st = Some t"
    and "parseInt (duration st) = Some d"
    and "combineDateTime P t timeSlot = Date s"
  shows "isSlotBusy P st timeSlot \<longleftrightarrow>
           (\<exists>b \<in> set (busySlots st). \<exists>b0 b1.
              parseISO P (start b) = Date b0 \<and> parseISO P (end' b) = Date b1
              \<and> s < b1 \<and> s + d * msPerMinute > b0)"
  using assms
  by (auto simp: isSlotBusy_def addMinutes_def list_ex_iff isBefore_iff isAfter_iff Let_def)

text \<open>
  C1. With a date selected, a duration that parses to \<open>d\<close> minutes and a slot that starts at
  \<open>s\<close>, the conflict check answers busy exactly when some interval of the busy set, with
  start \<open>b0\<close> and end \<open>b1\<close>, has \<open>s < b1\<close> and \<open>s + d > b0\<close> (times in milliseconds). In
  particular, against a single busy interval, a slot that ends exactly at \<open>b0\<close> or starts
  exactly at \<open>b1\<close> is free. This holds for every \<open>d\<close>, so for every \<open>d > 0\<close>.
\<close>

theorem isSlotBusy_overlap:
  assumes "selectedDate st = Some t"
    and "parseInt (duration st) = Some d"
    and "combineDateTime P t timeSlot = Date s"
  shows "(isSlotBusy P st timeSlot \<longleftrightarrow>
           (\<exists>b \<in> set (busySlots st). \<exists>b0 b1.
              parseISO P (start b) = Date b0 \<and> parseISO P (end' b) = Date b1
              \<and> s < b1 \<and> s + d * msPerMinute > b0))
         \<and> (\<forall>b b0 b1. busySlots st = [b] \<and> parseISO P (start b) = Date b0
                \<and> parseISO P (end' b) = Date b1
                \<and> (s + d * msPerMinute = b0 \<or> s = b1)
              \<longrightarrow> \<not> isSlotBusy P st timeSlot)"
proof -
  note iff = isSlotBusy_iff [OF assms]
  show ?thesis
  proof (intro conjI allI impI)
    show "isSlotBusy P st timeSlot \<longleftrightarrow>
           (\<exists>b \<in> set (busySlots st). \<exists>b0 b1.
              parseISO P (start b) = Date b0 \<and> parseISO P (end' b) = Date b1
              \<and> s < b1 \<and> s + d * msPerMinute > b0)"
      by (rule iff)
  next
    fix b b0 b1
    assume h: "busySlots st = [b] \<and> parseISO P (start b) = Date b0
                \<and> parseISO P (end' b) = Date b1
                \<and> (s + d * msPerMinute = b0 \<or> s = b1)"
    then show "\<not> isSlotBusy P st timeSlot"
      unfolding iff by auto
  qed
qed

subsection \<open>The first-available selector\<close>

lemma firstAvailableIn_find:
  "firstAvailableIn P st xs = find (\<lambda>slot. \<not> isSlotBusy P st slot) xs"
  by (induction xs) auto

lemma combine_grid:
  "map (combineDateTime P t) timeSlots
     = map (\<lambda>(h, m). setHours P (Date t) (Some h) (Some m) 0 0) grid_times"
  by (simp add: timeSlots_def grid_times_def combineDateTime_def Number_def)

lemma grid_times_bounds:
  "\<forall>(h, m) \<in> set grid_times.
      9 * msPerHour \<le> h * msPerHour + m * msPerMinute
      \<and> h * msPerHour + m * msPerMinute \<le> 17 * msPerHour"
  by (simp add: grid_times_def msPerHour_def msPerMinute_def)

lemma grid_slot_start:
  assumes tz: "\<forall>x u. LocalTZA P x u = off"
    and slot: "slot \<in> set timeSlots"
  shows "\<exists>k. combineDateTime P t slot = Date (((t + off) div msPerDay) * msPerDay + k - off)
             \<and> 9 * msPerHour \<le> k \<and> k \<le> 17 * msPerHour"
proof -
  have *: "\<And>h m. setHours P (Date t) (Some h) (Some m) 0 0
             = Date (((t + off) div msPerDay) * msPerDay + (h * msPerHour + m * msPerMinute) - off)"
    using tz by (simp add: setHours_def Let_def)
  from slot have "combineDateTime P t slot \<in> set (map (combineDateTime P t) timeSlots)"
    by simp
  then obtain h m where hm: "(h, m) \<in> set grid_times"
      and c: "combineDateTime P t slot = setHours P (Date t) (Some h) (Some m) 0 0"
    unfolding combine_grid by auto
  from hm grid_times_bounds
  have "9 * msPerHour \<le> h * msPerHour + m * msPerMinute
        \<and> h * msPerHour + m * msPerMinute \<le> 17 * msPerHour"
    by blast
  with c * [of h m] show ?thesis
    by (intro exI [of _ "h * msPerHour + m * msPerMinute"]) simp
qed

lemma isSlotBusy_empty: "busySlots st = [] \<Longrightarrow> \<not> isSlotBusy P st slot"
  by (simp add: isSlotBusy_def split: option.splits)

lemma starts_covered_none:
  assumes "selectedDate st = Some t" and "parseInt (duration st) = Some d" and "0 < d"
    and cover: "\<forall>slot \<in> set timeSlots. \<exists>s. combineDateTime P t slot = Date s
             \<and> (\<exists>b \<in> set (busySlots st). \<exists>b0 b1.
                    parseISO P (start b) = Date b0 \<and> parseISO P (end' b) = Date b1
                    \<and> b0 \<le> s \<and> s < b1)"
  shows "findFirstAvailable P st = None"
proof -
  have d: "0 < d * msPerMinute" using assms(3) by (simp add: msPerMinute_def)
  have "isSlotBusy P st slot" if slot: "slot \<in> set timeSlots" for slot
  proof -
    from cover slot obtain s b b0 b1 where
      s: "combineDateTime P t slot = Date s" and b: "b \<in> set (busySlots st)"
      and p: "parseISO P (start b) = Date b0" "parseISO P (end' b) = Date b1"
      and r: "b0 \<le> s" "s < b1"
      by blast
    have "s + d * msPerMinute > b0" using r(1) d by simp
    with b p r(2) show ?thesis
      unfolding isSlotBusy_iff [OF assms(1,2) s] by blast
  qed
  then show ?thesis
    by (auto simp: findFirstAvailable_def firstAvailableIn_find find_None_iff)
qed

text \<open>
  C2, amended. The selector walks the grid from its first entry and returns the first slot
  the conflict check does not call busy: it returns none exactly when every grid slot is
  busy, and it returns \<open>x\<close> exactly when \<open>x\<close> is a grid slot that is not busy and every
  earlier grid slot is busy. With an empty busy set it returns "09:00". With a positive
  duration it returns none whenever the busy intervals together contain the start of every
  grid slot; in a time zone with a constant UTC offset this is the case whenever they
  together contain every instant from 09:00 to 17:00 of the selected day, 17:00 included.
\<close>

theorem findFirstAvailable_scan:
  "(findFirstAvailable P st = None \<longleftrightarrow> (\<forall>slot \<in> set timeSlots. isSlotBusy P st slot))
   \<and> (\<forall>x. findFirstAvailable P st = Some x \<longleftrightarrow>
          (\<exists>i < length timeSlots. \<not> isSlotBusy P st (timeSlots ! i) \<and> x = timeSlots ! i
             \<and> (\<forall>j < i. isSlotBusy P st (timeSlots ! j))))
   \<and> (busySlots st = [] \<longrightarrow> findFirstAvailable P st = Some ''09:00'')
   \<and> (selectedDate st = Some t \<and> parseInt (duration st) = Some d \<and> 0 < d
        \<and> (\<forall>slot \<in> set timeSlots. \<exists>s. combineDateTime P t slot = Date s
             \<and> (\<exists>b \<in> set (busySlots st). \<exists>b0 b1.
                    parseISO P (start b) = Date b0 \<and> parseISO P (end' b) = Date b1
                    \<and> b0 \<le> s \<and> s < b1))
      \<longrightarrow> findFirstAvailable P st = None)
   \<and> (selectedDate st = Some t \<and> parseInt (duration st) = Some d \<and> 0 < d
        \<and> (\<forall>x u. LocalTZA P x u = off)
        \<and> setHours P (Date t) (Some 9) (Some 0) 0 0 = Date nine
        \<and> setHours P (Date t) (Some 17) (Some 0) 0 0 = Date five
        \<and> (\<forall>x. nine \<le> x \<and> x \<le> five \<longrightarrow>
              (\<exists>b \<in> set (busySlots st). \<exists>b0 b1.
                  parseISO P (start b) = Date b0 \<and> parseISO P (end' b) = Date b1
                  \<and> b0 \<le> x \<and> x < b1))
      \<longrightarrow> findFirstAvailable P st = None)"
proof (intro conjI allI impI)
  show "findFirstAvailable P st = None \<longleftrightarrow> (\<forall>slot \<in> set timeSlots. isSlotBusy P st slot)"
    by (auto simp: findFirstAvailable_def firstAvailableIn_find find_None_iff)
  show "busySlots st = [] \<Longrightarrow> findFirstAvailable P st = Some ''09:00''"
    by (simp add: findFirstAvailable_def timeSlots_def isSlotBusy_empty)
  {
    fix x
    show "findFirstAvailable P st = Some x \<longleftrightarrow>
          (\<exists>i < length timeSlots. \<not> isSlotBusy P st (timeSlots ! i) \<and> x = timeSlots ! i
             \<and> (\<forall>j < i. isSlotBusy P st (timeSlots ! j)))"
      by (simp add: findFirstAvailable_def firstAvailableIn_find find_Some_iff)
  }
  {
    assume "selectedDate st = Some t \<and> parseInt (duration st) = Some d \<and> 0 < d
        \<and> (\<forall>slot \<in> set timeSlots. \<exists>s. combineDateTime P t slot = Date s
             \<and> (\<exists>b \<in> set (busySlots st). \<exists>b0 b1.
                    parseISO P (start b) = Date b0 \<and> parseISO P (end' b) = Date b1
                    \<and> b0 \<le> s \<and> s < b1))"
    then show "findFirstAvailable P st = None"
      using starts_covered_none [of st t d P] by blast
  }
  assume h: "selectedDate st = Some t \<and> parseInt (duration st) = Some d \<and> 0 < d
        \<and> (\<forall>x u. LocalTZA P x u = off)
        \<and> setHours P (Date t) (Some 9) (Some 0) 0 0 = Date nine
        \<and> setHours P (Date t) (Some 17) (Some 0) 0 0 = Date five
        \<and> (\<forall>x. nine \<le> x \<and> x \<le> five \<longrightarrow>
              (\<exists>b \<in> set (busySlots st). \<exists>b0 b1.
                  parseISO P (start b) = Date b0 \<and> parseISO P (end' b) = Date b1
                  \<and> b0 \<le> x \<and> x < b1))"
  then have tz: "\<forall>x u. LocalTZA P x u = off" by simp
  define base where "base = ((t + off) div msPerDay) * msPerDay"
  have nine: "nine = base + 9 * msPerHour - off" and five: "five = base + 17 * msPerHour - off"
    using h by (auto simp: setHours_def Let_def base_def msPerMinute_def)
  have "\<exists>s. combineDateTime P t slot = Date s
             \<and> (\<exists>b \<in> set (busySlots st). \<exists>b0 b1.
                    parseISO P (start b) = Date b0 \<and> parseISO P (end' b) = Date b1
                    \<and> b0 \<le> s \<and> s < b1)"
    if slot: "slot \<in> set timeSlots" for slot
  proof -
    from grid_slot_start [OF tz slot, of t] obtain k where
      k: "combineDateTime P t slot = Date (base + k - off)"
         "9 * msPerHour \<le> k" "k \<le> 17 * msPerHour"
      by (auto simp: base_def)
    have "nine \<le> base + k - off \<and> base + k - off \<le> five"
      using k(2,3) nine five by simp
    with h k(1) show ?thesis by blast
  qed
  with h show "findFirstAvailable P st = None"
    using starts_covered_none [of st t d P] by blast
qed

subsection \<open>The example of the spec: duration 60, busy from 10:00 to 11:00\<close>

lemmas example_simps =
  example_dialog_def free_dialog_def booked_dialog_def split_day_dialog_def
  office_hours_dialog_def idle_dialog_def unconnected_dialog_def fetchBusySlots_pending_def

lemma example_parseISO:
  "parseISO example_platform ''2026-01-05T00:00:00Z'' = Date 1767571200000"
  "parseISO example_platform ''2026-01-05T09:00:00Z'' = Date 1767603600000"
  "parseISO example_platform ''2026-01-05T10:00:00Z'' = Date 1767607200000"
  "parseISO example_platform ''2026-01-05T11:00:00Z'' = Date 1767610800000"
  "parseISO example_platform ''2026-01-05T12:00:00Z'' = Date 1767614400000"
  "parseISO example_platform ''2026-01-05T17:00:00Z'' = Date 1767632400000"
  "parseISO example_platform ''2026-01-05T18:00:00Z'' = Date 1767636000000"
  by (simp_all add: example_platform_def)

lemma example_setHours:
  "setHours example_platform (Date 1767571200000) (Some h) (Some m) 0 0
     = Date (1767571200000 + h * 3600000 + m * 60000)"
  by (simp add: setHours_def example_platform_def msPerDay_def msPerHour_def msPerMinute_def)

lemma example_grid_starts:
  "map (combineDateTime example_platform 1767571200000) timeSlots
     = map (\<lambda>(h, m). Date (1767571200000 + h * 3600000 + m * 60000)) grid_times"
  unfolding combine_grid example_setHours by simp

text \<open>
  C2, as stated, fails at its last clause: a busy interval from 09:00 to 17:00 of the
  selected day covers the business day, yet the slot 17:00 starts when the interval ends
  and is free, so the selector returns "17:00" and not none.
\<close>

theorem office_hours_counterexample:
  "selectedDate office_hours_dialog = Some 1767571200000
   \<and> duration office_hours_dialog = ''60''
   \<and> busySlots office_hours_dialog
       = [\<lparr>start = ''2026-01-05T09:00:00Z'', end' = ''2026-01-05T17:00:00Z''\<rparr>]
   \<and> parseISO example_platform ''2026-01-05T09:00:00Z''
       = setHours example_platform (Date 1767571200000) (Some 9) (Some 0) 0 0
   \<and> parseISO example_platform ''2026-01-05T17:00:00Z''
       = setHours example_platform (Date 1767571200000) (Some 17) (Some 0) 0 0
   \<and> findFirstAvailable example_platform office_hours_dialog = Some ''17:00''"
proof -
  have "findFirstAvailable example_platform office_hours_dialog = Some ''17:00''"
    by (simp add: findFirstAvailable_def timeSlots_def isSlotBusy_def combineDateTime_def
        Number_def example_setHours example_parseISO addMinutes_def parseInt_def
        msPerMinute_def example_simps Let_def)
  then show ?thesis
    by (simp add: example_setHours example_parseISO example_simps)
qed

theorem isSlotBusy_overlap_witness:
  "selectedDate example_dialog = Some 1767571200000
   \<and> parseInt (duration example_dialog) = Some 60
   \<and> isSlotBusy example_platform example_dialog ''10:30''
   \<and> \<not> isSlotBusy example_platform example_dialog ''09:00''
   \<and> \<not> isSlotBusy example_platform example_dialog ''11:00''"
proof -
  have d: "selectedDate example_dialog = Some 1767571200000"
    by (simp add: example_dialog_def)
  have p: "parseInt (duration example_dialog) = Some 60"
    by (simp add: example_dialog_def parseInt_def)
  have b: "busySlots example_dialog
             = [\<lparr>start = ''2026-01-05T10:00:00Z'', end' = ''2026-01-05T11:00:00Z''\<rparr>]"
    by (simp add: example_dialog_def)
  have c: "combineDateTime example_platform 1767571200000 ''10:30'' = Date 1767609000000"
    "combineDateTime example_platform 1767571200000 ''09:00'' = Date 1767603600000"
    "combineDateTime example_platform 1767571200000 ''11:00'' = Date 1767610800000"
    by (simp_all add: combineDateTime_def Number_def example_setHours)
  have "isSlotBusy example_platform example_dialog ''10:30''"
    using isSlotBusy_overlap [OF d p c(1)]
    by (simp add: b example_parseISO msPerMinute_def)
  moreover have "\<not> isSlotBusy example_platform example_dialog ''09:00''"
    using isSlotBusy_overlap [OF d p c(2)]
    by (simp add: b example_parseISO msPerMinute_def)
  moreover have "\<not> isSlotBusy example_platform example_dialog ''11:00''"
    using isSlotBusy_overlap [OF d p c(3)]
    by (simp add: b example_parseISO msPerMinute_def)
  ultimately show ?thesis using d p by simp
qed

theorem findFirstAvailable_scan_witness:
  "findFirstAvailable example_platform example_dialog = Some ''09:00''
   \<and> findFirstAvailable example_platform free_dialog = Some ''09:00''
   \<and> findFirstAvailable example_platform booked_dialog = None
   \<and> findFirstAvailable example_platform split_day_dialog = None"
proof -
  have free9: "\<not> isSlotBusy example_platform example_dialog ''09:00''"
    by (simp add: isSlotBusy_def combineDateTime_def Number_def example_setHours
        example_parseISO addMinutes_def parseInt_def msPerMinute_def example_simps Let_def)
  have "findFirstAvailable example_platform example_dialog = Some ''09:00''"
    using findFirstAvailable_scan [of example_platform example_dialog] free9
    by (auto simp: timeSlots_def intro!: exI [of _ 0])
  moreover have "findFirstAvailable example_platform free_dialog = Some ''09:00''"
    using findFirstAvailable_scan [of example_platform free_dialog]
    by (simp add: example_simps)
  moreover have "findFirstAvailable example_platform booked_dialog = None"
  proof -
    have hyp: "selectedDate booked_dialog = Some 1767571200000
        \<and> parseInt (duration booked_dialog) = Some 60 \<and> (0::int) < 60
        \<and> (\<forall>x u. LocalTZA example_platform x u = 0)
        \<and> setHours example_platform (Date 1767571200000) (Some 9) (Some 0) 0 0
            = Date 1767603600000
        \<and> setHours example_platform (Date 1767571200000) (Some 17) (Some 0) 0 0
            = Date 1767632400000
        \<and> (\<forall>x. 1767603600000 \<le> x \<and> x \<le> 1767632400000 \<longrightarrow>
              (\<exists>b \<in> set (busySlots booked_dialog). \<exists>b0 b1.
                  parseISO example_platform (start b) = Date b0
                  \<and> parseISO example_platform (end' b) = Date b1
                  \<and> b0 \<le> x \<and> x < b1))"
      by (simp add: example_setHours example_parseISO parseInt_def example_simps)
         (simp add: example_platform_def)
    show ?thesis
      using findFirstAvailable_scan [of example_platform booked_dialog 1767571200000 60 0
          1767603600000 1767632400000] hyp
      by blast
  qed
  moreover have "findFirstAvailable example_platform split_day_dialog = None"
  proof -
    have hyp: "selectedDate split_day_dialog = Some 1767571200000
        \<and> parseInt (duration split_day_dialog) = Some 60 \<and> (0::int) < 60
        \<and> (\<forall>x u. LocalTZA example_platform x u = 0)
        \<and> setHours example_platform (Date 1767571200000) (Some 9) (Some 0) 0 0
            = Date 1767603600000
        \<and> setHours example_platform (Date 1767571200000) (Some 17) (Some 0) 0 0
            = Date 1767632400000
        \<and> (\<forall>x. 1767603600000 \<le> x \<and> x \<le> 1767632400000 \<longrightarrow>
              (\<exists>b \<in> set (busySlots split_day_dialog). \<exists>b0 b1.
                  parseISO example_platform (start b) = Date b0
                  \<and> parseISO example_platform (end' b) = Date b1
                  \<and> b0 \<le> x \<and> x < b1))"
      by (simp add: example_setHours example_parseISO parseInt_def example_simps)
         (auto simp: example_platform_def)
    show ?thesis
      using findFirstAvailable_scan [of example_platform split_day_dialog 1767571200000 60 0
          1767603600000 1767632400000] hyp
      by blast
  qed
  ultimately show ?thesis by simp
qed

subsection \<open>Persistence in schedule-interview\<close>

lemma createTeamsMeeting_log:
  "snd (createTeamsMeeting w at d u m) = w
   \<or> snd (createTeamsMeeting w at d u m) = w\<lparr>log := log w @ [TeamsTokenRequest]\<rparr>
   \<or> snd (createTeamsMeeting w at d u m)
       = w\<lparr>log := log w @ [TeamsTokenRequest, TeamsMeetingRequest]\<rparr>"
  unfolding createTeamsMeeting_def
  by (simp add: emit_def Let_def split: fetched.split date.split option.split)

lemma createTeamsMeeting_frame:
  "\<exists>es. snd (createTeamsMeeting w at d u m) = w\<lparr>log := log w @ es\<rparr>
        \<and> set es \<subseteq> {TeamsTokenRequest, TeamsMeetingRequest}"
proof -
  from createTeamsMeeting_log [of w at d u m] consider
      "snd (createTeamsMeeting w at d u m) = w\<lparr>log := log w @ []\<rparr>"
    | "snd (createTeamsMeeting w at d u m) = w\<lparr>log := log w @ [TeamsTokenRequest]\<rparr>"
    | "snd (createTeamsMeeting w at d u m)
         = w\<lparr>log := log w @ [TeamsTokenRequest, TeamsMeetingRequest]\<rparr>"
    by auto
  then show ?thesis
  proof cases
    case 1
    then show ?thesis by (intro exI [of _ "[]"]) simp
  next
    case 2
    then show ?thesis by (intro exI [of _ "[TeamsTokenRequest]"]) simp
  next
    case 3
    then show ?thesis by (intro exI [of _ "[TeamsTokenRequest, TeamsMeetingRequest]"]) simp
  qed
qed

lemma insertInterview_refused:
  assumes "insert_refused w appId at dur"
  shows "\<exists>e. insertInterview w appId at dur ty url mid
           = (Inl e, w\<lparr>log := log w @ [InterviewsInsert appId at dur ty url mid]\<rparr>)"
  using assms by (auto simp: insertInterview_def insert_refused_def emit_def Let_def)

lemma insertInterview_accepted:
  assumes "\<not> insert_refused w appId at dur"
  shows "insertInterview w appId at dur ty url mid
           = (Inr \<lparr>interview_id = next_uuid w, application_id = appId, scheduled_at = at,
                   duration_minutes = dur, interview_type = ty, meeting_url = url,
                   meeting_id = mid, interview_notes = None,
                   interview_status = ''scheduled'', created_by = None\<rparr>,
              w\<lparr>log := log w @ [InterviewsInsert appId at dur ty url mid],
                interviews_table := interviews_table w @
                  [\<lparr>interview_id = next_uuid w, application_id = appId, scheduled_at = at,
                    duration_minutes = dur, interview_type = ty, meeting_url = url,
                    meeting_id = mid, interview_notes = None,
                    interview_status = ''scheduled'', created_by = None\<rparr>],
                next_uuid := Suc (next_uuid w)\<rparr>)"
  using assms by (simp add: insertInterview_def insert_refused_def emit_def Let_def)

lemma meeting_before_insert_frame:
  "\<exists>es. snd (meeting_before_insert w r at) = w\<lparr>log := log w @ es\<rparr>
        \<and> set es \<subseteq> {TeamsTokenRequest, TeamsMeetingRequest}"
proof (cases "truthy (or_null (meetingUrl r))")
  case True
  then have "snd (meeting_before_insert w r at) = w\<lparr>log := log w @ []\<rparr>"
    by (simp add: meeting_before_insert_def)
  then show ?thesis by (intro exI [of _ "[]"]) simp
next
  case False
  then show ?thesis
    using createTeamsMeeting_frame by (simp add: meeting_before_insert_def)
qed

lemma schedule_interview_reaches_insert:
  assumes "http_method req \<noteq> ''OPTIONS''" and "json req = Some r"
    and "applicationId r = Some appId" and "scheduledAt r = Some at"
    and "appId \<noteq> []" and "at \<noteq> []"
  shows "schedule_interview w req =
           (case insertInterview (snd (meeting_before_insert w r at)) appId at
                   (inserted_duration r) (inserted_type r)
                   (fst (fst (meeting_before_insert w r at)))
                   (snd (fst (meeting_before_insert w r at))) of
              (Inl interviewError, w2) \<Rightarrow>
                (\<lparr>status = 500,
                  body = ErrorBody (error_message w (Postgrest interviewError)) None\<rparr>, w2)
            | (Inr interview_r, w2) \<Rightarrow>
                (\<lparr>status = 200,
                  body = ScheduledBody interview_r (fst (fst (meeting_before_insert w r at)))
                           (if truthy (fst (fst (meeting_before_insert w r at)))
                            then ''Interview scheduled with video meeting link''
                            else ''Interview scheduled (add meeting link manually)'')\<rparr>,
                 emit InvokeSlackNotify
                   (emit (InvokeSendEmail (candidateEmail r))
                      (updateApplicationStatus w2 appId interview))))"
  using assms
  by (simp add: schedule_interview_def meeting_before_insert_def inserted_duration_def
      inserted_type_def truthy_def Let_def split: prod.splits sum.splits)

lemma schedule_interview_refused:
  assumes "http_method req \<noteq> ''OPTIONS''" and "json req = Some r"
    and "applicationId r = Some appId" and "scheduledAt r = Some at"
    and "appId \<noteq> []" and "at \<noteq> []"
    and refused: "insert_refused w appId at (inserted_duration r)"
  shows "\<exists>e es. schedule_interview w req =
           (\<lparr>status = 500, body = ErrorBody (error_message w (Postgrest e)) None\<rparr>,
            w\<lparr>log := log w @ es\<rparr>)
          \<and> \<not> list_ex downstream es"
proof -
  obtain es where es: "snd (meeting_before_insert w r at) = w\<lparr>log := log w @ es\<rparr>"
      "set es \<subseteq> {TeamsTokenRequest, TeamsMeetingRequest}"
    using meeting_before_insert_frame by blast
  let ?ins = "InterviewsInsert appId at (inserted_duration r) (inserted_type r)
                (fst (fst (meeting_before_insert w r at)))
                (snd (fst (meeting_before_insert w r at)))"
  have "insert_refused (w\<lparr>log := log w @ es\<rparr>) appId at (inserted_duration r)"
    using refused by (simp add: insert_refused_def)
  from insertInterview_refused [OF this] obtain e where
    "insertInterview (w\<lparr>log := log w @ es\<rparr>) appId at (inserted_duration r) (inserted_type r)
       (fst (fst (meeting_before_insert w r at))) (snd (fst (meeting_before_insert w r at)))
     = (Inl e, w\<lparr>log := log w @ es @ [?ins]\<rparr>)"
    by fastforce
  then have "schedule_interview w req =
           (\<lparr>status = 500, body = ErrorBody (error_message w (Postgrest e)) None\<rparr>,
            w\<lparr>log := log w @ (es @ [?ins])\<rparr>)"
    by (simp add: schedule_interview_reaches_insert [OF assms(1-6)] es(1))
  moreover have "\<not> list_ex downstream (es @ [?ins])"
    using es(2) by (auto simp: list_ex_iff downstream_def)
  ultimately show ?thesis by blast
qed

lemma insert_refused_iff:
  "insert_refused w appId at dur
     \<longleftrightarrow> (\<exists>e. fst (insertInterview w appId at dur ty url mid) = Inl e)"
proof (cases "insert_refused w appId at dur")
  case True
  with insertInterview_refused [OF True, of ty url mid] show ?thesis by auto
next
  case False
  with insertInterview_accepted [OF False, of ty url mid] show ?thesis by auto
qed

lemma schedule_interview_accepted:
  assumes "http_method req \<noteq> ''OPTIONS''" and "json req = Some r"
    and "applicationId r = Some appId" and "scheduledAt r = Some at"
    and "appId \<noteq> []" and "at \<noteq> []"
    and accepted: "\<not> insert_refused w appId at (inserted_duration r)"
  shows "\<exists>row url msg es.
           schedule_interview w req =
             (\<lparr>status = 200, body = ScheduledBody row url msg\<rparr>,
              w\<lparr>log := log w @ es,
                interviews_table := interviews_table w @ [row],
                next_uuid := Suc (next_uuid w),
                applications_table :=
                  map (\<lambda>a. if application_pk a = appId
                           then a\<lparr>application_status := interview\<rparr> else a)
                      (applications_table w)\<rparr>)
           \<and> row = \<lparr>interview_id = next_uuid w, application_id = appId, scheduled_at = at,
                     duration_minutes = inserted_duration r,
                     interview_type = inserted_type r,
                     meeting_url = fst (fst (meeting_before_insert w r at)),
                     meeting_id = snd (fst (meeting_before_insert w r at)),
                     interview_notes = None, interview_status = ''scheduled'',
                     created_by = None\<rparr>
           \<and> url = meeting_url row
           \<and> InterviewsInsert appId at (inserted_duration r) (inserted_type r)
                (meeting_url row) (meeting_id row) \<in> set es"
proof -
  obtain es where es: "snd (meeting_before_insert w r at) = w\<lparr>log := log w @ es\<rparr>"
    using meeting_before_insert_frame by blast
  have "\<not> insert_refused (w\<lparr>log := log w @ es\<rparr>) appId at (inserted_duration r)"
    using accepted by (simp add: insert_refused_def)
  note ins = insertInterview_accepted [OF this]
  let ?url = "fst (fst (meeting_before_insert w r at))"
  let ?mid = "snd (fst (meeting_before_insert w r at))"
  let ?row = "\<lparr>interview_id = next_uuid w, application_id = appId, scheduled_at = at,
                 duration_minutes = inserted_duration r,
                 interview_type = inserted_type r,
                 meeting_url = ?url, meeting_id = ?mid,
                 interview_notes = None, interview_status = ''scheduled'',
                 created_by = None\<rparr>"
  let ?es = "es @ [InterviewsInsert appId at (inserted_duration r) (inserted_type r) ?url ?mid,
                   ApplicationsUpdate appId interview, InvokeSendEmail (candidateEmail r),
                   InvokeSlackNotify]"
  let ?msg = "if truthy ?url then ''Interview scheduled with video meeting link''
              else ''Interview scheduled (add meeting link manually)''"
  have "schedule_interview w req =
             (\<lparr>status = 200, body = ScheduledBody ?row ?url ?msg\<rparr>,
              w\<lparr>log := log w @ ?es,
                interviews_table := interviews_table w @ [?row],
                next_uuid := Suc (next_uuid w),
                applications_table :=
                  map (\<lambda>a. if application_pk a = appId
                           then a\<lparr>application_status := interview\<rparr> else a)
                      (applications_table w)\<rparr>)"
    unfolding schedule_interview_reaches_insert [OF assms(1-6)] es ins
    using accepted
    by (simp add: updateApplicationStatus_def emit_def Let_def insert_refused_def)
  moreover have "InterviewsInsert appId at (inserted_duration r) (inserted_type r)
                (meeting_url ?row) (meeting_id ?row) \<in> set ?es"
    by simp
  ultimately show ?thesis
    by (intro exI [of _ ?row] exI [of _ ?url] exI [of _ ?msg] exI [of _ ?es]) simp
qed

lemma accepted_again:
  assumes "\<not> insert_refused w appId at dur"
  shows "\<not> insert_refused
           (w\<lparr>log := l, interviews_table := t, next_uuid := n,
              applications_table :=
                map (\<lambda>a. if application_pk a = appId
                         then a\<lparr>application_status := s\<rparr> else a)
                    (applications_table w)\<rparr>) appId at dur"
proof -
  from assms obtain a where a: "a \<in> set (applications_table w)" "application_pk a = appId"
    by (auto simp: insert_refused_def list_ex_iff)
  let ?f = "\<lambda>a. if application_pk a = appId then a\<lparr>application_status := s\<rparr> else a"
  have "?f a \<in> set (map ?f (applications_table w))" using a(1) by simp
  moreover have "application_pk (?f a) = appId" using a(2) by simp
  ultimately have "list_ex (\<lambda>a. application_pk a = appId) (map ?f (applications_table w))"
    unfolding list_ex_iff by blast
  with assms show ?thesis by (simp add: insert_refused_def)
qed

text \<open>
  C3. For a request that passes validation, if the insert of the interview is refused, the
  handler answers with status 500 and an error body, the tables \<open>applications\<close> and
  \<open>interviews\<close> are as before, and none of the calls it logged is the status update, the
  e-mail or the Slack message.
\<close>

theorem persistence_failure_is_fatal:
  assumes "http_method req \<noteq> ''OPTIONS''" and "json req = Some r"
    and "applicationId r = Some appId" and "scheduledAt r = Some at"
    and "appId \<noteq> []" and "at \<noteq> []"
    and "insert_refused w appId at (inserted_duration r)"
    and "schedule_interview w req = (resp, w')"
  shows "status resp = 500 \<and> (\<exists>m. body resp = ErrorBody m None)
         \<and> applications_table w' = applications_table w
         \<and> interviews_table w' = interviews_table w
         \<and> (\<exists>es. log w' = log w @ es \<and> \<not> list_ex downstream es)"
proof -
  from schedule_interview_refused [OF assms(1-7)] obtain e es where
    "schedule_interview w req =
           (\<lparr>status = 500, body = ErrorBody (error_message w (Postgrest e)) None\<rparr>,
            w\<lparr>log := log w @ es\<rparr>)" and "\<not> list_ex downstream es"
    by blast
  with assms(8) show ?thesis by auto
qed

text \<open>
  C7. If the database accepts the insert for a request (it is available, the application
  exists, the time is a valid timestamp and the duration fits an \<open>INTEGER\<close>), then sending
  the same request twice answers 200 both times and appends two rows with the same
  application and the same scheduled time and with different ids: the insert is not guarded
  by any uniqueness check on (application, time).
\<close>

theorem scheduling_twice_creates_two_interviews:
  assumes "http_method req \<noteq> ''OPTIONS''" and "json req = Some r"
    and "applicationId r = Some appId" and "scheduledAt r = Some at"
    and "appId \<noteq> []" and "at \<noteq> []"
    and "\<not> insert_refused w appId at (inserted_duration r)"
    and first: "schedule_interview w req = (resp1, w1)"
    and second: "schedule_interview w1 req = (resp2, w2)"
  shows "status resp1 = 200 \<and> status resp2 = 200
         \<and> (\<exists>i1 i2 u1 m1 u2 m2.
               body resp1 = ScheduledBody i1 u1 m1 \<and> body resp2 = ScheduledBody i2 u2 m2
               \<and> interviews_table w1 = interviews_table w @ [i1]
               \<and> interviews_table w2 = interviews_table w @ [i1, i2]
               \<and> interview_id i1 \<noteq> interview_id i2
               \<and> application_id i1 = appId \<and> application_id i2 = appId
               \<and> scheduled_at i1 = at \<and> scheduled_at i2 = at)"
proof -
  from schedule_interview_accepted [OF assms(1-7)] first obtain i1 u1 m1 es1 where
    one: "resp1 = \<lparr>status = 200, body = ScheduledBody i1 u1 m1\<rparr>"
      "w1 = w\<lparr>log := log w @ es1,
                interviews_table := interviews_table w @ [i1],
                next_uuid := Suc (next_uuid w),
                applications_table :=
                  map (\<lambda>a. if application_pk a = appId
                           then a\<lparr>application_status := interview\<rparr> else a)
                      (applications_table w)\<rparr>"
      "interview_id i1 = next_uuid w" "application_id i1 = appId" "scheduled_at i1 = at"
    by auto
  have "\<not> insert_refused w1 appId at (inserted_duration r)"
    unfolding one(2) by (rule accepted_again [OF assms(7)])
  from schedule_interview_accepted [OF assms(1-6) this] second obtain i2 u2 m2 es2 where
    two: "resp2 = \<lparr>status = 200, body = ScheduledBody i2 u2 m2\<rparr>"
      "interviews_table w2 = interviews_table w1 @ [i2]"
      "interview_id i2 = next_uuid w1" "application_id i2 = appId" "scheduled_at i2 = at"
    by auto
  from one two show ?thesis by auto
qed

text \<open>
  C10. A request with an application id and a scheduled time is never rejected for its
  duration or its interview type (no 400): the handler issues the insert. The two defaults
  are independent. The duration inserted is 60 when \<open>durationMinutes\<close> is missing, null or
  0, and the number given otherwise; the type inserted is 'Technical' when \<open>interviewType\<close>
  is missing or empty, and the string given otherwise. When the database accepts the insert
  the answer is 200 and the new row has these two values.
\<close>

theorem missing_duration_and_type_default:
  assumes "http_method req \<noteq> ''OPTIONS''" and "json req = Some r"
    and "applicationId r = Some appId" and "scheduledAt r = Some at"
    and "appId \<noteq> []" and "at \<noteq> []"
    and run: "schedule_interview w req = (resp, w')"
  shows "status resp \<noteq> 400
         \<and> (\<exists>es dur ty url mid.
               log w' = log w @ es
               \<and> InterviewsInsert appId at dur ty url mid \<in> set es
               \<and> (durationMinutes r = Absent \<or> durationMinutes r = JsonNull
                    \<or> durationMinutes r = Num 0 \<longrightarrow> dur = 60)
               \<and> (\<forall>n. durationMinutes r = Num n \<and> n \<noteq> 0 \<longrightarrow> dur = n)
               \<and> (\<not> truthy (interviewType_r r) \<longrightarrow> ty = ''Technical'')
               \<and> (\<forall>t. interviewType_r r = Some t \<and> t \<noteq> [] \<longrightarrow> ty = t)
               \<and> (\<not> insert_refused w appId at dur \<longrightarrow>
                     status resp = 200
                     \<and> (\<exists>row. interviews_table w' = interviews_table w @ [row]
                           \<and> duration_minutes row = dur \<and> interview_type row = ty)))"
proof -
  let ?dur = "inserted_duration r" and ?ty = "inserted_type r"
  let ?url = "fst (fst (meeting_before_insert w r at))"
  let ?mid = "snd (fst (meeting_before_insert w r at))"
  have d1: "durationMinutes r = Absent \<or> durationMinutes r = JsonNull
              \<or> durationMinutes r = Num 0 \<longrightarrow> ?dur = 60"
    and d2: "\<forall>n. durationMinutes r = Num n \<and> n \<noteq> 0 \<longrightarrow> ?dur = n"
    by (auto simp: inserted_duration_def duration_or_default_def)
  have t1: "\<not> truthy (interviewType_r r) \<longrightarrow> ?ty = ''Technical''"
    and t2: "\<forall>t. interviewType_r r = Some t \<and> t \<noteq> [] \<longrightarrow> ?ty = t"
    by (auto simp: inserted_type_def truthy_def)
  have "\<exists>es. status resp \<noteq> 400 \<and> log w' = log w @ es
          \<and> InterviewsInsert appId at ?dur ?ty ?url ?mid \<in> set es
          \<and> (\<not> insert_refused w appId at ?dur \<longrightarrow>
                 status resp = 200
                 \<and> (\<exists>row. interviews_table w' = interviews_table w @ [row]
                       \<and> duration_minutes row = ?dur \<and> interview_type row = ?ty))"
  proof (cases "insert_refused w appId at ?dur")
    case False
    from schedule_interview_accepted [OF assms(1-6) False] run obtain row es where
      r: "status resp = 200"
         "log w' = log w @ es" "interviews_table w' = interviews_table w @ [row]"
         "duration_minutes row = ?dur" "interview_type row = ?ty"
         "meeting_url row = ?url" "meeting_id row = ?mid"
         "InterviewsInsert appId at ?dur ?ty (meeting_url row) (meeting_id row) \<in> set es"
      by auto
    have "InterviewsInsert appId at ?dur ?ty ?url ?mid \<in> set es"
      using r(6,7,8) by simp
    with r(1-5) show ?thesis by (intro exI [of _ es]) auto
  next
    case True
    from schedule_interview_refused [OF assms(1-6) True] run
    have st: "status resp = 500" by auto
    obtain es where es: "snd (meeting_before_insert w r at) = w\<lparr>log := log w @ es\<rparr>"
      using meeting_before_insert_frame by blast
    have "insert_refused (w\<lparr>log := log w @ es\<rparr>) appId at ?dur"
      using True by (simp add: insert_refused_def)
    from insertInterview_refused [OF this, of ?ty ?url ?mid]
    obtain e where
      "insertInterview (w\<lparr>log := log w @ es\<rparr>) appId at ?dur ?ty ?url ?mid
       = (Inl e, w\<lparr>log := log w @ es @ [InterviewsInsert appId at ?dur ?ty ?url ?mid]\<rparr>)"
      by auto
    with run have "log w' = log w @ (es @ [InterviewsInsert appId at ?dur ?ty ?url ?mid])"
      unfolding schedule_interview_reaches_insert [OF assms(1-6)] es by auto
    with st True show ?thesis
      by (intro exI [of _ "es @ [InterviewsInsert appId at ?dur ?ty ?url ?mid]"]) simp
  qed
  then obtain es where
    "status resp \<noteq> 400" "log w' = log w @ es"
    "InterviewsInsert appId at ?dur ?ty ?url ?mid \<in> set es"
    "\<not> insert_refused w appId at ?dur \<longrightarrow>
       status resp = 200
       \<and> (\<exists>row. interviews_table w' = interviews_table w @ [row]
             \<and> duration_minutes row = ?dur \<and> interview_type row = ?ty)"
    by blast
  with d1 d2 t1 t2 show ?thesis
    by (intro conjI exI [of _ es] exI [of _ ?dur] exI [of _ ?ty] exI [of _ ?url]
        exI [of _ ?mid]) simp_all
qed

theorem persistence_failure_is_fatal_witness:
  "insert_refused example_world ''app-404'' ''2026-01-05T09:00:00.000Z'' 60
   \<and> status (fst (schedule_interview example_world unknown_application_request)) = 500
   \<and> applications_table (snd (schedule_interview example_world unknown_application_request))
       = applications_table example_world
   \<and> interviews_table (snd (schedule_interview example_world unknown_application_request))
       = interviews_table example_world"
proof -
  have refused: "insert_refused example_world ''app-404'' ''2026-01-05T09:00:00.000Z'' 60"
    by (simp add: insert_refused_def example_world_def)
  show ?thesis
    using persistence_failure_is_fatal [of unknown_application_request
        "example_body\<lparr>applicationId := Some ''app-404''\<rparr>" "''app-404''"
        "''2026-01-05T09:00:00.000Z''" example_world
        "fst (schedule_interview example_world unknown_application_request)"
        "snd (schedule_interview example_world unknown_application_request)"] refused
    by (simp add: unknown_application_request_def example_body_def inserted_duration_def
        duration_or_default_def)
qed

theorem scheduling_twice_creates_two_interviews_witness:
  "\<not> insert_refused example_world ''app-1'' ''2026-01-05T09:00:00.000Z'' 60
   \<and> status (fst (schedule_interview example_world example_request)) = 200
   \<and> status (fst (schedule_interview
                    (snd (schedule_interview example_world example_request))
                    example_request)) = 200
   \<and> length (interviews_table
               (snd (schedule_interview
                       (snd (schedule_interview example_world example_request))
                       example_request))) = 2
   \<and> distinct (map interview_id
        (interviews_table
           (snd (schedule_interview
                   (snd (schedule_interview example_world example_request))
                   example_request))))"
proof -
  have accepted: "\<not> insert_refused example_world ''app-1'' ''2026-01-05T09:00:00.000Z'' 60"
    by (simp add: insert_refused_def example_world_def)
  have empty: "interviews_table example_world = []"
    by (simp add: example_world_def)
  show ?thesis
    using scheduling_twice_creates_two_interviews [of example_request example_body
        "''app-1''" "''2026-01-05T09:00:00.000Z''" example_world
        "fst (schedule_interview example_world example_request)"
        "snd (schedule_interview example_world example_request)"
        "fst (schedule_interview (snd (schedule_interview example_world example_request))
                example_request)"
        "snd (schedule_interview (snd (schedule_interview example_world example_request))
                example_request)"] accepted empty
    by (auto simp: example_request_def example_body_def inserted_duration_def
        duration_or_default_def)
qed

theorem missing_duration_and_type_default_witness:
  "status (fst (schedule_interview example_world duration_only_request)) = 200
   \<and> map duration_minutes
        (interviews_table (snd (schedule_interview example_world duration_only_request)))
       = [45]
   \<and> map interview_type
        (interviews_table (snd (schedule_interview example_world duration_only_request)))
       = [''Technical'']
   \<and> status (fst (schedule_interview example_world type_only_request)) = 200
   \<and> map duration_minutes
        (interviews_table (snd (schedule_interview example_world type_only_request)))
       = [60]
   \<and> map interview_type
        (interviews_table (snd (schedule_interview example_world type_only_request)))
       = [''HR Screen'']"
proof -
  have empty: "interviews_table example_world = []"
    by (simp add: example_world_def)
  have acc: "\<not> insert_refused example_world ''app-1'' ''2026-01-05T09:00:00.000Z'' 45"
    "\<not> insert_refused example_world ''app-1'' ''2026-01-05T09:00:00.000Z'' 60"
    by (simp_all add: insert_refused_def example_world_def)
  let ?r1 = "example_body\<lparr>durationMinutes := Num 45\<rparr>"
  let ?r2 = "example_body\<lparr>interviewType_r := Some ''HR Screen''\<rparr>"
  have one: "status (fst (schedule_interview example_world duration_only_request)) = 200
      \<and> map duration_minutes
        (interviews_table (snd (schedule_interview example_world duration_only_request)))
       = [45]
      \<and> map interview_type
        (interviews_table (snd (schedule_interview example_world duration_only_request)))
       = [''Technical'']"
    using missing_duration_and_type_default [of duration_only_request ?r1
        "''app-1''" "''2026-01-05T09:00:00.000Z''" example_world
        "fst (schedule_interview example_world duration_only_request)"
        "snd (schedule_interview example_world duration_only_request)"] acc empty
    by (auto simp: duration_only_request_def example_body_def truthy_def)
  have two: "status (fst (schedule_interview example_world type_only_request)) = 200
      \<and> map duration_minutes
        (interviews_table (snd (schedule_interview example_world type_only_request)))
       = [60]
      \<and> map interview_type
        (interviews_table (snd (schedule_interview example_world type_only_request)))
       = [''HR Screen'']"
    using missing_duration_and_type_default [of type_only_request ?r2
        "''app-1''" "''2026-01-05T09:00:00.000Z''" example_world
        "fst (schedule_interview example_world type_only_request)"
        "snd (schedule_interview example_world type_only_request)"] acc empty
    by (auto simp: type_only_request_def example_body_def truthy_def)
  from one two show ?thesis by simp
qed

subsection \<open>Validation\<close>

lemma remove_first_prefix: "remove_first pat (pat @ s) = s"
proof (cases "pat @ s")
  case Nil
  then show ?thesis by simp
next
  case (Cons a list)
  have t: "take (length pat) (a # list) = pat" and d: "drop (length pat) (a # list) = s"
    using Cons by (metis append_eq_conv_conj)+
  show ?thesis by (simp add: Cons t d)
qed

text \<open>
  C8. When the selected application, the selected date or the selected time is missing,
  the mutation function throws the validation error before doing anything else: the dialog
  and the backend are as before, and the error handler shows the message to the user. The
  edge function, for its part, answers a request without an application id or a scheduled
  time with status 400 and leaves the backend as it was.
\<close>

theorem missing_selection_is_rejected:
  "(selectedApplication st = [] \<or> selectedDate st = None \<or> selectedTime st = []
      \<longrightarrow> mutationFn P session st w
            = (Inl (JsError ''Please select a candidate, date and time''), st, w)
          \<and> scheduleInterview P session st w
            = (st\<lparr>toasts := toasts st
                     @ [ToastError ''Please select a candidate, date and time'']\<rparr>, w))
   \<and> (http_method req \<noteq> ''OPTIONS'' \<and> json req = Some r
        \<and> (\<not> truthy (applicationId r) \<or> \<not> truthy (scheduledAt r))
      \<longrightarrow> schedule_interview w req
            = (\<lparr>status = 400,
                body = ErrorBody ''Application ID and scheduled time are required'' None\<rparr>,
               w))"
proof (intro conjI impI)
  assume missing: "selectedApplication st = [] \<or> selectedDate st = None \<or> selectedTime st = []"
  then show m: "mutationFn P session st w
            = (Inl (JsError ''Please select a candidate, date and time''), st, w)"
    by (auto simp: mutationFn_def split: option.splits)
  show "scheduleInterview P session st w
            = (st\<lparr>toasts := toasts st
                     @ [ToastError ''Please select a candidate, date and time'']\<rparr>, w)"
    by (simp add: scheduleInterview_def m message_def)
next
  assume "http_method req \<noteq> ''OPTIONS'' \<and> json req = Some r
        \<and> (\<not> truthy (applicationId r) \<or> \<not> truthy (scheduledAt r))"
  then show "schedule_interview w req
            = (\<lparr>status = 400,
                body = ErrorBody ''Application ID and scheduled time are required'' None\<rparr>,
               w)"
    by (auto simp: schedule_interview_def)
qed

theorem missing_selection_is_rejected_witness:
  "selectedTime example_dialog = []
   \<and> mutationFn example_platform ''jwt-1'' example_dialog example_world
       = (Inl (JsError ''Please select a candidate, date and time''), example_dialog,
          example_world)
   \<and> \<not> truthy (scheduledAt (example_body\<lparr>scheduledAt := None\<rparr>))
   \<and> schedule_interview example_world
         \<lparr>http_method = ''POST'', authorization = None,
          json = Some (example_body\<lparr>scheduledAt := None\<rparr>)\<rparr>
       = (\<lparr>status = 400,
           body = ErrorBody ''Application ID and scheduled time are required'' None\<rparr>,
          example_world)"
proof -
  have t: "selectedTime example_dialog = []"
    by (simp add: example_dialog_def)
  have s: "\<not> truthy (scheduledAt (example_body\<lparr>scheduledAt := None\<rparr>))"
    by (simp add: truthy_def)
  show ?thesis
    using missing_selection_is_rejected [of example_dialog example_platform "''jwt-1''"
        example_world
        "\<lparr>http_method = ''POST'', authorization = None,
          json = Some (example_body\<lparr>scheduledAt := None\<rparr>)\<rparr>"
        "example_body\<lparr>scheduledAt := None\<rparr>"] t s
    by simp
qed

subsection \<open>A calendar that is not connected\<close>

lemma example_user: "getUser example_world ''jwt-1'' = Some ''user-1''"
  by (simp add: example_world_def)

lemma example_no_tokens: "selectTokens example_world ''user-1'' = None"
  by (simp add: selectTokens_def example_world_def)

lemma not_connected_response:
  assumes "http_method req \<noteq> ''OPTIONS''" and "authorization req = Some h" and "h \<noteq> []"
    and "getUser w (remove_first ''Bearer '' h) = Some uid"
    and "json req = Some r" and "selectTokens w uid = None"
  shows "google_calendar w req =
           (if action r = check_connection
            then \<lparr>status = 200,
                  body = ConnectionBody False
                           (truthy (GOOGLE_CLIENT_ID w) \<and> truthy (GOOGLE_CLIENT_SECRET w))\<rparr>
            else \<lparr>status = 400,
                  body = ErrorBody ''Google Calendar not connected'' (Some ''NOT_CONNECTED'')\<rparr>,
            w)"
  using assms by (simp add: google_calendar_def truthy_def Let_def)

lemma fetchBusySlots_not_connected:
  assumes "getUser w session = Some uid" and "selectTokens w uid = None"
  shows "fetchBusySlots P session st w date_t = (st\<lparr>loadingBusy := False\<rparr>, w)"
proof -
  have "google_calendar w
          \<lparr>http_method = ''POST'', authorization = Some (''Bearer '' @ session),
           json = Some \<lparr>action = get_free_busy, timeMin = a, timeMax = b, event = None\<rparr>\<rparr>
        = (\<lparr>status = 400,
            body = ErrorBody ''Google Calendar not connected'' (Some ''NOT_CONNECTED'')\<rparr>, w)"
    for a b
    using assms
    by (subst not_connected_response [where h = "''Bearer '' @ session" and uid = uid
          and r = "\<lparr>action = get_free_busy, timeMin = a, timeMax = b, event = None\<rparr>"])
       (simp_all add: remove_first_prefix)
  then show ?thesis
    by (simp add: fetchBusySlots_def setHours_def invoke_data_def Let_def)
qed

text \<open>
  C5, as stated, fails: with no credential stored, the availability query is answered with
  an error (status 400, code NOT_CONNECTED), not with an empty busy set, and the busy set the
  dialog holds afterwards is the one it held before, here a non-empty one.
\<close>

theorem not_connected_query_counterexample:
  "selectTokens example_world ''user-1'' = None
   \<and> fst (google_calendar example_world free_busy_request)
       = \<lparr>status = 400,
          body = ErrorBody ''Google Calendar not connected'' (Some ''NOT_CONNECTED'')\<rparr>
   \<and> busySlots (fst (fetchBusySlots example_platform ''jwt-1'' stale_dialog example_world
                        1767657600000))
       = [\<lparr>start = ''2026-01-05T10:00:00Z'', end' = ''2026-01-05T11:00:00Z''\<rparr>]"
proof -
  have "fst (google_calendar example_world free_busy_request)
       = \<lparr>status = 400,
          body = ErrorBody ''Google Calendar not connected'' (Some ''NOT_CONNECTED'')\<rparr>"
    by (subst not_connected_response [where h = "''Bearer jwt-1''" and uid = "''user-1''"
          and r = "\<lparr>action = get_free_busy, timeMin = Some ''2026-01-06T00:00:00.000Z'',
                     timeMax = Some ''2026-01-06T23:59:59.999Z'', event = None\<rparr>"])
       (simp_all add: free_busy_request_def example_user example_no_tokens)
  moreover have "busySlots (fst (fetchBusySlots example_platform ''jwt-1'' stale_dialog
                        example_world 1767657600000))
       = [\<lparr>start = ''2026-01-05T10:00:00Z'', end' = ''2026-01-05T11:00:00Z''\<rparr>]"
    by (simp add: fetchBusySlots_not_connected [OF example_user example_no_tokens]
        stale_dialog_def example_dialog_def)
  ultimately show ?thesis using example_no_tokens by simp
qed

lemma google_calendar_with_token:
  assumes "http_method req \<noteq> ''OPTIONS''" and "authorization req = Some h" and "h \<noteq> []"
    and "getUser w (remove_first ''Bearer '' h) = Some uid"
    and "json req = Some r"
    and "selectTokens w uid = Some td" and "action r \<noteq> check_connection"
  shows "google_calendar w req =
           (case freshAccessToken w uid td of
              (Inl resp, w1) \<Rightarrow> (resp, w1)
            | (Inr accessToken, w1) \<Rightarrow>
                (case action r of
                   get_free_busy \<Rightarrow> getFreeBusy w1 r
                 | create_event \<Rightarrow> createEvent w1 r
                 | _ \<Rightarrow> (\<lparr>status = 400, body = ErrorBody ''Invalid action'' None\<rparr>, w1)))"
  using assms by (simp add: google_calendar_def truthy_def Let_def)

lemma freshAccessToken_unconfigured:
  assumes "isBefore (token_expiry td) (Date (now w))"
    and "\<not> (truthy (GOOGLE_CLIENT_ID w) \<and> truthy (GOOGLE_CLIENT_SECRET w))"
  shows "freshAccessToken w uid td =
           (Inl \<lparr>status = 500, body = ErrorBody ''OAuth not configured'' None\<rparr>, w)"
  using assms by (cases "truthy (GOOGLE_CLIENT_ID w)") (simp_all add: freshAccessToken_def)

lemma freshAccessToken_throws:
  assumes "isBefore (token_expiry td) (Date (now w))"
    and "truthy (GOOGLE_CLIENT_ID w)" and "truthy (GOOGLE_CLIENT_SECRET w)"
    and "google_refresh w = Throws"
  shows "freshAccessToken w uid td =
           (Inl \<lparr>status = 500, body = ErrorBody (error_message w FetchFailed) None\<rparr>,
            emit GoogleTokenRefresh w)"
  using assms by (simp add: freshAccessToken_def Let_def)

lemma freshAccessToken_refused:
  assumes "isBefore (token_expiry td) (Date (now w))"
    and "truthy (GOOGLE_CLIENT_ID w)" and "truthy (GOOGLE_CLIENT_SECRET w)"
    and "google_refresh w = NotOk \<or> (\<exists>t. google_refresh w = OkWith t \<and> \<not> truthy t)"
  shows "freshAccessToken w uid td =
      (Inl \<lparr>status = 400,
            body = ErrorBody ''Token expired, please reconnect Google Calendar''
                     (Some ''TOKEN_EXPIRED'')\<rparr>,
       (emit (TokensDelete uid) (emit GoogleTokenRefresh w))
         \<lparr>hr_google_tokens := filter (\<lambda>row. user_id row \<noteq> uid) (hr_google_tokens w)\<rparr>)"
proof -
  have "(case google_refresh w of OkWith t \<Rightarrow> or_null t | _ \<Rightarrow> None) = None"
    using assms(4) by (auto simp: or_null_def truthy_def split: option.splits)
  moreover have "google_refresh w \<noteq> Throws" using assms(4) by auto
  ultimately show ?thesis
    using assms(1-3) by (cases "google_refresh w") (simp_all add: freshAccessToken_def Let_def)
qed

lemma freshAccessToken_valid:
  "\<not> isBefore (token_expiry td) (Date (now w)) \<Longrightarrow>
     freshAccessToken w uid td = (Inr (access_token td), w)"
  by (simp add: freshAccessToken_def)

lemma getFreeBusy_refused:
  assumes "timeMin r = Some tmin" and "tmin \<noteq> []" and "timeMax r = Some tmax"
    and "tmax \<noteq> []" and "google_calendar_list w = Some items"
    and "google_freebusy w tmin tmax (case items of None \<Rightarrow> [''primary''] | Some ids \<Rightarrow> ids)
           = NotOk"
  shows "fst (getFreeBusy w r) =
           \<lparr>status = 500, body = ErrorBody ''Failed to get calendar availability'' None\<rparr>"
  using assms by (simp add: getFreeBusy_def truthy_def Let_def)

lemma fetchBusySlots_failed:
  assumes "setHours P (Date date_t) (Some 0) (Some 0) 0 0 = Date a"
    and "setHours P (Date date_t) (Some 23) (Some 59) 59 999 = Date b"
    and "invoke_data (fst (google_calendar w (busy_query P session a b))) = None"
  shows "fst (fetchBusySlots P session st w date_t) = st\<lparr>loadingBusy := False\<rparr>"
  using assms by (simp add: fetchBusySlots_def busy_query_def case_prod_beta)

text \<open>
  C5, amended. For an authenticated request with a JSON body: when no credential row is
  stored, 'check-connection' is answered with status 200 and \<open>{connected: false}\<close>, and every
  other action, the availability query among them, with status 400 and code NOT_CONNECTED,
  the backend left as it was. When the stored credential has expired, an action other than
  'check-connection' is answered with status 500 "OAuth not configured" if the OAuth client
  is not configured (backend left as it was), with status 500 and the error's message if the
  refresh request throws (credential kept), and with status 400 and code TOKEN_EXPIRED if
  Google answers the refresh not-ok or without an access token (the user's credential rows
  deleted). When the credential is stored and not expired and Google refuses the free/busy
  request, the availability query is answered with status 500. None of these answers carries
  a busy set. On the client, no availability query is issued while the dialog is not
  connected; and whenever the answer to the availability query has a status outside 2xx, as
  all the answers above have, \<open>fetchBusySlots\<close> leaves the busy set and every other field of
  the dialog as they were, clears the loading flag and raises nothing.
\<close>

theorem calendar_not_connected:
  assumes "http_method req \<noteq> ''OPTIONS''" and "authorization req = Some h" and "h \<noteq> []"
    and "getUser w (remove_first ''Bearer '' h) = Some uid"
    and "json req = Some r"
  shows "(selectTokens w uid = None \<and> action r = check_connection \<longrightarrow>
            google_calendar w req =
              (\<lparr>status = 200,
                body = ConnectionBody False
                         (truthy (GOOGLE_CLIENT_ID w) \<and> truthy (GOOGLE_CLIENT_SECRET w))\<rparr>, w))
         \<and> (selectTokens w uid = None \<and> action r \<noteq> check_connection \<longrightarrow>
            google_calendar w req =
              (\<lparr>status = 400,
                body = ErrorBody ''Google Calendar not connected'' (Some ''NOT_CONNECTED'')\<rparr>,
               w))
         \<and> (selectTokens w uid = Some td \<and> action r \<noteq> check_connection
              \<and> isBefore (token_expiry td) (Date (now w))
              \<and> \<not> (truthy (GOOGLE_CLIENT_ID w) \<and> truthy (GOOGLE_CLIENT_SECRET w)) \<longrightarrow>
            google_calendar w req =
              (\<lparr>status = 500, body = ErrorBody ''OAuth not configured'' None\<rparr>, w))
         \<and> (selectTokens w uid = Some td \<and> action r \<noteq> check_connection
              \<and> isBefore (token_expiry td) (Date (now w))
              \<and> truthy (GOOGLE_CLIENT_ID w) \<and> truthy (GOOGLE_CLIENT_SECRET w)
              \<and> google_refresh w = Throws \<longrightarrow>
            fst (google_calendar w req) =
              \<lparr>status = 500, body = ErrorBody (error_message w FetchFailed) None\<rparr>
            \<and> hr_google_tokens (snd (google_calendar w req)) = hr_google_tokens w)
         \<and> (selectTokens w uid = Some td \<and> action r \<noteq> check_connection
              \<and> isBefore (token_expiry td) (Date (now w))
              \<and> truthy (GOOGLE_CLIENT_ID w) \<and> truthy (GOOGLE_CLIENT_SECRET w)
              \<and> (google_refresh w = NotOk
                   \<or> (\<exists>t. google_refresh w = OkWith t \<and> \<not> truthy t)) \<longrightarrow>
            fst (google_calendar w req) =
              \<lparr>status = 400,
               body = ErrorBody ''Token expired, please reconnect Google Calendar''
                        (Some ''TOKEN_EXPIRED'')\<rparr>
            \<and> hr_google_tokens (snd (google_calendar w req))
                = filter (\<lambda>row. user_id row \<noteq> uid) (hr_google_tokens w))
         \<and> (selectTokens w uid = Some td \<and> action r = get_free_busy
              \<and> \<not> isBefore (token_expiry td) (Date (now w))
              \<and> timeMin r = Some tmin \<and> tmin \<noteq> [] \<and> timeMax r = Some tmax \<and> tmax \<noteq> []
              \<and> google_calendar_list w = Some items
              \<and> google_freebusy w tmin tmax
                   (case items of None \<Rightarrow> [''primary''] | Some ids \<Rightarrow> ids) = NotOk \<longrightarrow>
            fst (google_calendar w req) =
              \<lparr>status = 500, body = ErrorBody ''Failed to get calendar availability'' None\<rparr>)
         \<and> (\<not> calendarConnected st \<longrightarrow> fetchBusyEffect P session st w = (st, w))
         \<and> (setHours P (Date date_t) (Some 0) (Some 0) 0 0 = Date a
              \<and> setHours P (Date date_t) (Some 23) (Some 59) 59 999 = Date b
              \<and> invoke_data (fst (google_calendar w (busy_query P session a b))) = None \<longrightarrow>
            fst (fetchBusySlots P session st w date_t) = st\<lparr>loadingBusy := False\<rparr>)
         \<and> (getUser w session = Some uid \<and> selectTokens w uid = None \<longrightarrow>
              fetchBusySlots P session st w date_t = (st\<lparr>loadingBusy := False\<rparr>, w))"
proof (intro conjI impI)
  assume "selectTokens w uid = None \<and> action r = check_connection"
  then show "google_calendar w req =
              (\<lparr>status = 200,
                body = ConnectionBody False
                         (truthy (GOOGLE_CLIENT_ID w) \<and> truthy (GOOGLE_CLIENT_SECRET w))\<rparr>, w)"
    using not_connected_response [OF assms] by simp
next
  assume "selectTokens w uid = None \<and> action r \<noteq> check_connection"
  then show "google_calendar w req =
              (\<lparr>status = 400,
                body = ErrorBody ''Google Calendar not connected'' (Some ''NOT_CONNECTED'')\<rparr>,
               w)"
    using not_connected_response [OF assms] by simp
next
  assume "selectTokens w uid = Some td \<and> action r \<noteq> check_connection
              \<and> isBefore (token_expiry td) (Date (now w))
              \<and> \<not> (truthy (GOOGLE_CLIENT_ID w) \<and> truthy (GOOGLE_CLIENT_SECRET w))"
  then show "google_calendar w req =
              (\<lparr>status = 500, body = ErrorBody ''OAuth not configured'' None\<rparr>, w)"
    using google_calendar_with_token [OF assms, of td]
      freshAccessToken_unconfigured [of td w uid]
    by simp
next
  assume h: "selectTokens w uid = Some td \<and> action r \<noteq> check_connection
              \<and> isBefore (token_expiry td) (Date (now w))
              \<and> truthy (GOOGLE_CLIENT_ID w) \<and> truthy (GOOGLE_CLIENT_SECRET w)
              \<and> google_refresh w = Throws"
  then have g: "google_calendar w req =
      (\<lparr>status = 500, body = ErrorBody (error_message w FetchFailed) None\<rparr>,
       emit GoogleTokenRefresh w)"
    using google_calendar_with_token [OF assms, of td] freshAccessToken_throws [of td w uid]
    by simp
  show "fst (google_calendar w req) =
              \<lparr>status = 500, body = ErrorBody (error_message w FetchFailed) None\<rparr>"
    by (simp add: g)
  show "hr_google_tokens (snd (google_calendar w req)) = hr_google_tokens w"
    by (simp add: g emit_def)
next
  assume h: "selectTokens w uid = Some td \<and> action r \<noteq> check_connection
              \<and> isBefore (token_expiry td) (Date (now w))
              \<and> truthy (GOOGLE_CLIENT_ID w) \<and> truthy (GOOGLE_CLIENT_SECRET w)
              \<and> (google_refresh w = NotOk
                   \<or> (\<exists>t. google_refresh w = OkWith t \<and> \<not> truthy t))"
  then have g: "google_calendar w req =
      (\<lparr>status = 400,
        body = ErrorBody ''Token expired, please reconnect Google Calendar''
                 (Some ''TOKEN_EXPIRED'')\<rparr>,
       (emit (TokensDelete uid) (emit GoogleTokenRefresh w))
         \<lparr>hr_google_tokens := filter (\<lambda>row. user_id row \<noteq> uid) (hr_google_tokens w)\<rparr>)"
    using google_calendar_with_token [OF assms, of td] freshAccessToken_refused [of td w uid]
    by simp
  show "fst (google_calendar w req) =
              \<lparr>status = 400,
               body = ErrorBody ''Token expired, please reconnect Google Calendar''
                        (Some ''TOKEN_EXPIRED'')\<rparr>"
    by (simp add: g)
  show "hr_google_tokens (snd (google_calendar w req))
                = filter (\<lambda>row. user_id row \<noteq> uid) (hr_google_tokens w)"
    by (simp add: g)
next
  assume "selectTokens w uid = Some td \<and> action r = get_free_busy
              \<and> \<not> isBefore (token_expiry td) (Date (now w))
              \<and> timeMin r = Some tmin \<and> tmin \<noteq> [] \<and> timeMax r = Some tmax \<and> tmax \<noteq> []
              \<and> google_calendar_list w = Some items
              \<and> google_freebusy w tmin tmax
                   (case items of None \<Rightarrow> [''primary''] | Some ids \<Rightarrow> ids) = NotOk"
  then show "fst (google_calendar w req) =
              \<lparr>status = 500, body = ErrorBody ''Failed to get calendar availability'' None\<rparr>"
    using google_calendar_with_token [OF assms, of td] freshAccessToken_valid [of td w uid]
      getFreeBusy_refused [of r tmin tmax w items]
    by simp
next
  assume "\<not> calendarConnected st"
  then show "fetchBusyEffect P session st w = (st, w)"
    by (simp add: fetchBusyEffect_def split: option.splits)
next
  assume "setHours P (Date date_t) (Some 0) (Some 0) 0 0 = Date a
              \<and> setHours P (Date date_t) (Some 23) (Some 59) 59 999 = Date b
              \<and> invoke_data (fst (google_calendar w (busy_query P session a b))) = None"
  then show "fst (fetchBusySlots P session st w date_t) = st\<lparr>loadingBusy := False\<rparr>"
    using fetchBusySlots_failed by blast
next
  assume "getUser w session = Some uid \<and> selectTokens w uid = None"
  then show "fetchBusySlots P session st w date_t = (st\<lparr>loadingBusy := False\<rparr>, w)"
    using fetchBusySlots_not_connected by blast
qed

lemma expired_world_simps:
  "selectTokens expired_world ''user-1''
     = Some \<lparr>user_id = ''user-1'', access_token = ''access-0'', refresh_token = ''refresh-0'',
             token_expiry = Date 1767400000000\<rparr>"
  "getUser expired_world ''jwt-1'' = Some ''user-1''"
  "now expired_world = 1767500000000"
  "GOOGLE_CLIENT_ID expired_world = Some ''client''"
  "GOOGLE_CLIENT_SECRET expired_world = Some ''secret''"
  "google_refresh expired_world = NotOk"
  by (simp_all add: selectTokens_def expired_world_def example_world_def)

theorem calendar_not_connected_witness:
  "selectTokens example_world ''user-1'' = None
   \<and> google_calendar example_world free_busy_request
       = (\<lparr>status = 400,
           body = ErrorBody ''Google Calendar not connected'' (Some ''NOT_CONNECTED'')\<rparr>,
          example_world)
   \<and> fetchBusySlots example_platform ''jwt-1'' free_dialog example_world 1767571200000
       = (free_dialog\<lparr>loadingBusy := False\<rparr>, example_world)
   \<and> fst (google_calendar expired_world free_busy_request)
       = \<lparr>status = 400,
          body = ErrorBody ''Token expired, please reconnect Google Calendar''
                   (Some ''TOKEN_EXPIRED'')\<rparr>
   \<and> hr_google_tokens (snd (google_calendar expired_world free_busy_request)) = []
   \<and> fst (fetchBusySlots example_platform ''jwt-1'' example_dialog expired_world
            1767571200000)
       = example_dialog\<lparr>loadingBusy := False\<rparr>"
proof -
  let ?r = "\<lparr>action = get_free_busy, timeMin = Some ''2026-01-06T00:00:00.000Z'',
        timeMax = Some ''2026-01-06T23:59:59.999Z'', event = None\<rparr>"
  note th = calendar_not_connected [where req = free_busy_request and h = "''Bearer jwt-1''"
      and w = example_world and uid = "''user-1''" and r = ?r and st = free_dialog
      and P = example_platform and session = "''jwt-1''" and date_t = 1767571200000]
  have u: "getUser example_world (remove_first ''Bearer '' ''Bearer jwt-1'') = Some ''user-1''"
    by (simp add: example_user)
  have first: "selectTokens example_world ''user-1'' = None
   \<and> google_calendar example_world free_busy_request
       = (\<lparr>status = 400,
           body = ErrorBody ''Google Calendar not connected'' (Some ''NOT_CONNECTED'')\<rparr>,
          example_world)
   \<and> fetchBusySlots example_platform ''jwt-1'' free_dialog example_world 1767571200000
       = (free_dialog\<lparr>loadingBusy := False\<rparr>, example_world)"
    using th u example_user example_no_tokens
    by (simp add: free_busy_request_def)
  let ?td = "\<lparr>user_id = ''user-1'', access_token = ''access-0'', refresh_token = ''refresh-0'',
             token_expiry = Date 1767400000000\<rparr>"
  note th2 = calendar_not_connected [where req = free_busy_request and h = "''Bearer jwt-1''"
      and w = expired_world and uid = "''user-1''" and r = ?r and td = ?td
      and st = example_dialog and P = example_platform and session = "''jwt-1''"
      and date_t = 1767571200000 and a = 1767571200000 and b = 1767657599999]
  have u2: "getUser expired_world (remove_first ''Bearer '' ''Bearer jwt-1'') = Some ''user-1''"
    by (simp add: expired_world_simps)
  have pre: "http_method free_busy_request \<noteq> ''OPTIONS''"
      "authorization free_busy_request = Some ''Bearer jwt-1''" "''Bearer jwt-1'' \<noteq> []"
      "json free_busy_request = Some ?r"
    by (simp_all add: free_busy_request_def)
  have expired: "selectTokens expired_world ''user-1'' = Some ?td
      \<and> action ?r \<noteq> check_connection
      \<and> isBefore (token_expiry ?td) (Date (now expired_world))
      \<and> truthy (GOOGLE_CLIENT_ID expired_world) \<and> truthy (GOOGLE_CLIENT_SECRET expired_world)
      \<and> (google_refresh expired_world = NotOk
           \<or> (\<exists>t. google_refresh expired_world = OkWith t \<and> \<not> truthy t))"
    by (simp add: expired_world_simps truthy_def)
  have tokens: "hr_google_tokens expired_world = [?td]"
    by (simp add: expired_world_def)
  note th3 = th2 [OF pre(1-3) u2 pre(4)]
  have second: "fst (google_calendar expired_world free_busy_request)
       = \<lparr>status = 400,
          body = ErrorBody ''Token expired, please reconnect Google Calendar''
                   (Some ''TOKEN_EXPIRED'')\<rparr>
   \<and> hr_google_tokens (snd (google_calendar expired_world free_busy_request)) = []"
    using th3 [THEN conjunct2, THEN conjunct2, THEN conjunct2, THEN conjunct2,
        THEN conjunct1, THEN mp, OF expired]
    by (simp add: tokens)
  have days: "setHours example_platform (Date 1767571200000) (Some 0) (Some 0) 0 0
                = Date 1767571200000
      \<and> setHours example_platform (Date 1767571200000) (Some 23) (Some 59) 59 999
                = Date 1767657599999"
    by (simp add: setHours_def example_platform_def msPerDay_def msPerHour_def
        msPerMinute_def)
  have query: "invoke_data (fst (google_calendar expired_world
                 (busy_query example_platform ''jwt-1'' 1767571200000 1767657599999))) = None"
  proof -
    let ?q = "\<lparr>action = get_free_busy,
               timeMin = Some (toISOString example_platform 1767571200000),
               timeMax = Some (toISOString example_platform 1767657599999), event = None\<rparr>"
    have "fst (google_calendar expired_world
                 (busy_query example_platform ''jwt-1'' 1767571200000 1767657599999))
          = \<lparr>status = 400,
             body = ErrorBody ''Token expired, please reconnect Google Calendar''
                      (Some ''TOKEN_EXPIRED'')\<rparr>"
      by (subst google_calendar_with_token [where h = "''Bearer jwt-1''" and uid = "''user-1''"
            and r = ?q and td = ?td])
         (simp_all add: busy_query_def expired_world_simps
            freshAccessToken_refused [where td = ?td and w = expired_world] truthy_def)
    then show ?thesis by (simp add: invoke_data_def)
  qed
  have third: "fst (fetchBusySlots example_platform ''jwt-1'' example_dialog expired_world
            1767571200000)
       = example_dialog\<lparr>loadingBusy := False\<rparr>"
    using th3 [THEN conjunct2, THEN conjunct2, THEN conjunct2, THEN conjunct2,
        THEN conjunct2, THEN conjunct2, THEN conjunct2, THEN conjunct1, THEN mp] days query
    by simp
  show ?thesis using first second third by simp
qed

subsection \<open>Auto-selection\<close>

text \<open>The auto-select effect changes nothing but the selected time, and changes that only
  when a date is selected, the loading flag of its render is clear, no time is selected and
  the selector returns a slot.\<close>

lemma autoSelectEffect_cases:
  "(loadingBusy st \<longrightarrow> autoSelectEffect P st = st)
   \<and> (findFirstAvailable P st = None \<longrightarrow> autoSelectEffect P st = st)
   \<and> (selectedTime st \<noteq> [] \<longrightarrow> autoSelectEffect P st = st)
   \<and> (selectedDate st \<noteq> None \<and> \<not> loadingBusy st \<and> selectedTime st = []
        \<and> findFirstAvailable P st = Some x \<and> x \<noteq> []
      \<longrightarrow> autoSelectEffect P st = st\<lparr>selectedTime := x\<rparr>)"
  by (auto simp: autoSelectEffect_def split: option.splits)

lemma morning_busy_answer:
  "fetchBusySlots example_platform ''jwt-1'' st morning_busy_world 1767571200000
   = (st\<lparr>busySlots :=
            [\<lparr>start = ''2026-01-05T09:00:00Z'', end' = ''2026-01-05T10:00:00Z''\<rparr>],
          loadingBusy := False\<rparr>,
      emit GoogleFreeBusy (emit GoogleCalendarList morning_busy_world))"
  by (simp add: fetchBusySlots_def setHours_def msPerDay_def msPerHour_def msPerMinute_def
      google_calendar_def getFreeBusy_def freshAccessToken_def selectTokens_def
      truthy_def invoke_data_def morning_busy_world_def example_world_def emit_def
      example_platform_def Let_def)

text \<open>
  C6 fails in the code. A date is picked in the open, connected dialog, with no time selected
  and no availability request in flight. The effects of the render that follows start the
  request and, in the same pass, select "09:00": the guard of the auto-select effect reads
  the loading flag of that render, which is still clear. The time field is therefore set
  while the answer for the date is outstanding. The answer then reports 09:00 to 10:00 as
  busy, the selector returns "10:00", and the effect, finding a time selected, keeps
  "09:00", a slot the conflict check calls busy. When the calendar is not connected no
  request is made at all and the pick still selects "09:00".
\<close>

theorem date_pick_selects_before_answer:
  "selectedTime picked_dialog = [] \<and> \<not> loadingBusy picked_dialog
   \<and> calendarConnected picked_dialog \<and> busySlots picked_dialog = []
   \<and> loadingBusy in_flight_dialog \<and> busySlots in_flight_dialog = []
   \<and> selectedTime in_flight_dialog = ''09:00''
   \<and> busySlots answered_dialog
       = [\<lparr>start = ''2026-01-05T09:00:00Z'', end' = ''2026-01-05T10:00:00Z''\<rparr>]
   \<and> \<not> loadingBusy answered_dialog
   \<and> isSlotBusy example_platform answered_dialog ''09:00''
   \<and> findFirstAvailable example_platform answered_dialog = Some ''10:00''
   \<and> selectedTime (autoSelectEffect example_platform answered_dialog) = ''09:00''
   \<and> \<not> calendarConnected unconnected_dialog
   \<and> selectedTime (dateChangeEffects example_platform
                      (onSelect unconnected_dialog (Some 1767571200000))) = ''09:00''"
proof -
  have picked: "picked_dialog = free_dialog\<lparr>selectedTime := []\<rparr>"
    by (simp add: picked_dialog_def onSelect_def example_simps)
  have first: "findFirstAvailable example_platform st = Some ''09:00''" if "busySlots st = []" for st
    using that by (simp add: findFirstAvailable_def timeSlots_def isSlotBusy_empty)
  have flight: "in_flight_dialog = free_dialog\<lparr>selectedTime := ''09:00'', loadingBusy := True\<rparr>"
    by (simp add: in_flight_dialog_def dateChangeEffects_def autoSelectEffect_def picked first
        example_simps)
  have answered: "answered_dialog
      = free_dialog\<lparr>selectedTime := ''09:00'',
          busySlots := [\<lparr>start = ''2026-01-05T09:00:00Z'', end' = ''2026-01-05T10:00:00Z''\<rparr>]\<rparr>"
    by (simp add: answered_dialog_def morning_busy_answer flight example_simps)
  have busy9: "isSlotBusy example_platform answered_dialog ''09:00''"
    by (simp add: answered isSlotBusy_def combineDateTime_def Number_def example_setHours
        example_parseISO addMinutes_def parseInt_def msPerMinute_def example_simps Let_def)
  have next10: "findFirstAvailable example_platform answered_dialog = Some ''10:00''"
    by (simp add: answered findFirstAvailable_def timeSlots_def isSlotBusy_def
        combineDateTime_def Number_def example_setHours example_parseISO addMinutes_def
        parseInt_def msPerMinute_def example_simps Let_def)
  have kept: "selectedTime (autoSelectEffect example_platform answered_dialog) = ''09:00''"
    by (simp add: autoSelectEffect_def next10) (simp add: answered)
  have unconnected: "selectedTime (dateChangeEffects example_platform
                      (onSelect unconnected_dialog (Some 1767571200000))) = ''09:00''"
    by (simp add: dateChangeEffects_def autoSelectEffect_def onSelect_def first example_simps)
  show ?thesis
    using busy9 next10 kept unconnected
    by (simp add: picked flight answered example_simps)
qed

subsection \<open>A failing meeting creation\<close>

lemma freshAccessToken_same: "same_for_scheduling w (snd (freshAccessToken w uid td))"
  by (simp add: freshAccessToken_def same_for_scheduling_def emit_def Let_def
      split: fetched.split option.split)

lemma getFreeBusy_same: "same_for_scheduling w (snd (getFreeBusy w r))"
  by (simp add: getFreeBusy_def same_for_scheduling_def emit_def Let_def
      split: fetched.split option.split)

lemma createEvent_same: "same_for_scheduling w (snd (createEvent w r))"
  by (simp add: createEvent_def same_for_scheduling_def emit_def Let_def
      split: fetched.split option.split)

lemma same_refl: "same_for_scheduling w w"
  by (simp add: same_for_scheduling_def)

lemma same_trans:
  "same_for_scheduling w w1 \<Longrightarrow> same_for_scheduling w1 w2 \<Longrightarrow> same_for_scheduling w w2"
  by (simp add: same_for_scheduling_def)

lemma google_calendar_same: "same_for_scheduling w (snd (google_calendar w req))"
proof -
  have *: "same_for_scheduling w (snd (case freshAccessToken w uid td of
                 (Inl resp, w1) \<Rightarrow> (resp, w1)
               | (Inr accessToken, w1) \<Rightarrow>
                   (case action r of
                      get_free_busy \<Rightarrow> getFreeBusy w1 r
                    | create_event \<Rightarrow> createEvent w1 r
                    | _ \<Rightarrow> (\<lparr>status = 400, body = ErrorBody ''Invalid action'' None\<rparr>, w1))))"
    for uid td r
  proof (cases "freshAccessToken w uid td")
    case (Pair res w1)
    then have w1: "same_for_scheduling w w1"
      using freshAccessToken_same [of w uid td] by simp
    show ?thesis
    proof (cases res)
      case (Inl resp)
      with Pair w1 show ?thesis by simp
    next
      case (Inr tok)
      with Pair w1 show ?thesis
        using same_trans [OF w1 getFreeBusy_same [of w1 r]]
          same_trans [OF w1 createEvent_same [of w1 r]]
        by (cases "action r") simp_all
    qed
  qed
  show ?thesis
    unfolding google_calendar_def Let_def
    by (simp add: same_refl * split: option.split)
qed

lemma insert_refused_same:
  "same_for_scheduling w w1 \<Longrightarrow>
     insert_refused w1 appId at dur = insert_refused w appId at dur"
  by (simp add: same_for_scheduling_def insert_refused_def)

lemma createTeamsMeeting_same:
  "same_for_scheduling w w1 \<Longrightarrow>
     fst (createTeamsMeeting w1 at d u m) = fst (createTeamsMeeting w at d u m)"
  by (simp add: same_for_scheduling_def createTeamsMeeting_def Let_def
      split: fetched.split date.split option.split)

lemma createTeamsMeeting_link:
  "fst (fst (createTeamsMeeting w at d u m)) = fst (fst (createTeamsMeeting w at d u m'))"
  by (simp add: createTeamsMeeting_def Let_def split: fetched.split date.split option.split)

lemma createCalendarEvent_same:
  "same_for_scheduling w (snd (snd (createCalendarEvent P session st w app sd ed)))"
  by (simp add: createCalendarEvent_def same_refl google_calendar_same case_prod_beta
      split: date.split option.split response_body.split)

text \<open>When the call to google-calendar returns an error, the block yields no meeting link
  and no event id.\<close>

lemma createCalendarEvent_failed:
  assumes "invoke_data (fst (google_calendar w
             \<lparr>http_method = ''POST'', authorization = Some (''Bearer '' @ session),
              json = Some
                \<lparr>action = create_event, timeMin = None, timeMax = None,
                 event = Some
                   \<lparr>summary = ''Interview: '' @ full_name app @ '' - '' @ title app,
                    description = Some (interviewType st @ '' interview with ''
                       @ full_name app @ '' for '' @ title app @ '' position.''),
                    startTime = toISOString P s, endTime = toISOString P e,
                    attendees = Some [email app], createMeet = Some True\<rparr>\<rparr>\<rparr>)) = None"
  shows "fst (createCalendarEvent P session st w app (Date s) (Date e)) = (None, None)"
  using assms by (simp add: createCalendarEvent_def case_prod_beta)

text \<open>
  C4, amended. With an application, a date and a time selected, the application in the
  list, a valid start time, and an insert the database accepts: if the calendar block
  yields no meeting link (as it does whenever the call to google-calendar fails, see
  \<open>createCalendarEvent_failed\<close>), the mutation still returns the response of
  schedule-interview as a success, with its own \<open>meetingUrl\<close> null, and exactly one
  interview row is appended for the selected application and time. The row's meeting link
  is null when the Microsoft Teams fallback of the edge function yields no link either.
\<close>

theorem meeting_failure_does_not_abort:
  assumes "selectedDate st = Some date_t" and "selectedApplication st \<noteq> []"
    and "selectedTime st \<noteq> []"
    and "find (\<lambda>a. app_id a = selectedApplication st)
           (case applications st of None \<Rightarrow> [] | Some apps \<Rightarrow> apps) = Some app"
    and "combineDateTime P date_t (selectedTime st) = Date s" and "toISOString P s \<noteq> []"
    and fail: "calendarConnected st \<and> createMeetLink st \<longrightarrow>
           fst (fst (createCalendarEvent P session st w app (Date s)
                       (addMinutes (Date s) (parseInt (duration st))))) = None"
    and accepted: "\<not> insert_refused w (selectedApplication st) (toISOString P s)
           (duration_or_default (json_number_of (parseInt (duration st))))"
    and run: "mutationFn P session st w = (res, st', w')"
  shows "\<exists>row u m.
           res = Inr (ScheduledBody row u m, None)
           \<and> interviews_table w' = interviews_table w @ [row]
           \<and> application_id row = selectedApplication st
           \<and> scheduled_at row = toISOString P s
           \<and> (fst (fst (createTeamsMeeting w (toISOString P s)
                          (json_number_of (parseInt (duration st))) None None)) = None
                \<longrightarrow> meeting_url row = None)"
proof -
  let ?ce = "if calendarConnected st \<and> createMeetLink st
             then createCalendarEvent P session st w app (Date s)
                    (addMinutes (Date s) (parseInt (duration st)))
             else ((None, None), st, w)"
  obtain url evId st1 w1 where ce: "?ce = ((url, evId), st1, w1)"
    by (metis prod.exhaust)
  have url: "url = None"
    using fail ce by (auto split: if_splits)
  have same: "same_for_scheduling w w1"
    using ce createCalendarEvent_same [of w P session st app "Date s"
        "addMinutes (Date s) (parseInt (duration st))"]
    by (auto simp: same_refl split: if_splits)
  let ?r = "\<lparr>applicationId = Some (selectedApplication st),
              scheduledAt = Some (toISOString P s),
              durationMinutes = json_number_of (parseInt (duration st)),
              interviewType_r = Some (interviewType st),
              candidateEmail = Some (email app),
              candidateName = Some (full_name app),
              jobTitle = Some (title app),
              meetingUrl = None, meetingId = evId\<rparr>"
  let ?req = "\<lparr>http_method = ''POST'', authorization = Some (''Bearer '' @ session),
               json = Some ?r\<rparr>"
  have m: "mutationFn P session st w =
             (case invoke_data (fst (schedule_interview w1 ?req)) of
                None \<Rightarrow> (Inl FunctionsHttpError, st1, snd (schedule_interview w1 ?req))
              | Some data \<Rightarrow> (Inr (data, None), st1, snd (schedule_interview w1 ?req)))"
  proof -
    have ce': "?ce = ((None, evId), st1, w1)"
      using ce url by (simp only:)
    show ?thesis
      unfolding mutationFn_def Let_def
      by (simp only: assms(1-5) ce' option.case if_False simp_thms case_prod_conv date.case
          case_prod_beta fst_conv snd_conv)
  qed
  have acc1: "\<not> insert_refused w1 (selectedApplication st) (toISOString P s)
           (inserted_duration ?r)"
    using accepted insert_refused_same [OF same] by (simp add: inserted_duration_def)
  have q: "http_method ?req \<noteq> ''OPTIONS''" "json ?req = Some ?r"
    "applicationId ?r = Some (selectedApplication st)"
    "scheduledAt ?r = Some (toISOString P s)"
    by simp_all
  from schedule_interview_accepted [OF q assms(2,6) acc1]
  obtain row u msg es where
    si: "schedule_interview w1 ?req =
           (\<lparr>status = 200, body = ScheduledBody row u msg\<rparr>,
            w1\<lparr>log := log w1 @ es,
                interviews_table := interviews_table w1 @ [row],
                next_uuid := Suc (next_uuid w1),
                applications_table :=
                  map (\<lambda>a. if application_pk a = selectedApplication st
                           then a\<lparr>application_status := interview\<rparr> else a)
                      (applications_table w1)\<rparr>)"
    and rowdef: "row = \<lparr>interview_id = next_uuid w1,
                     application_id = selectedApplication st,
                     scheduled_at = toISOString P s,
                     duration_minutes = inserted_duration ?r,
                     interview_type = inserted_type ?r,
                     meeting_url = fst (fst (meeting_before_insert w1 ?r (toISOString P s))),
                     meeting_id = snd (fst (meeting_before_insert w1 ?r (toISOString P s))),
                     interview_notes = None, interview_status = ''scheduled'',
                     created_by = None\<rparr>"
    by blast
  have row: "application_id row = selectedApplication st" "scheduled_at row = toISOString P s"
      "meeting_url row = fst (fst (meeting_before_insert w1 ?r (toISOString P s)))"
    unfolding rowdef by simp_all
  have res: "res = Inr (ScheduledBody row u msg, None)"
    and tbl: "interviews_table w' = interviews_table w @ [row]"
    using run same unfolding m si
    by (auto simp: invoke_data_def same_for_scheduling_def)
  have "meeting_url row
          = fst (fst (createTeamsMeeting w (toISOString P s)
                        (json_number_of (parseInt (duration st))) None None))"
    unfolding row(3)
    using createTeamsMeeting_same [OF same, of "toISOString P s"
        "json_number_of (parseInt (duration st))" None "or_null evId"]
      createTeamsMeeting_link [of w "toISOString P s"
        "json_number_of (parseInt (duration st))" None "or_null evId" None]
    by (simp add: meeting_before_insert_def or_null_def truthy_def)
  with res tbl row(1,2) show ?thesis
    by (intro exI [of _ row] exI [of _ u] exI [of _ msg]) simp
qed

lemma example_toISOString:
  "toISOString example_platform 1767603600000 = ''2026-01-05T09:00:00.000Z''"
  "toISOString example_platform 1767607200000 = ''2026-01-05T10:00:00.000Z''"
  by (simp_all add: example_platform_def)

lemma ready_start:
  "combineDateTime example_platform 1767571200000 ''09:00'' = Date 1767603600000"
  by (simp add: combineDateTime_def Number_def example_setHours)

lemma ready_end:
  "addMinutes (Date 1767603600000) (parseInt ''60'') = Date 1767607200000"
  by (simp add: addMinutes_def parseInt_def msPerMinute_def)

lemma teams_world_calendar_fails:
  "createCalendarEvent example_platform ''jwt-1'' ready_dialog teams_world example_app
     (Date 1767603600000) (Date 1767607200000)
   = ((None, None), ready_dialog, teams_world\<lparr>log := [GoogleCreateEvent]\<rparr>)"
  by (simp add: createCalendarEvent_def google_calendar_def remove_first_prefix
      selectTokens_def freshAccessToken_def createEvent_def invoke_data_def emit_def
      truthy_def teams_world_def example_world_def Let_def)

lemma ready_find:
  "find (\<lambda>a. app_id a = selectedApplication ready_dialog)
     (case applications ready_dialog of None \<Rightarrow> [] | Some apps \<Rightarrow> apps) = Some example_app"
  by (simp add: ready_dialog_def example_dialog_def example_app_def)

lemma teams_world_mutation:
  "mutationFn example_platform ''jwt-1'' ready_dialog teams_world
   = (Inr (ScheduledBody
             \<lparr>interview_id = 0, application_id = ''app-1'',
              scheduled_at = ''2026-01-05T09:00:00.000Z'', duration_minutes = 60,
              interview_type = ''Technical'',
              meeting_url = Some ''https://teams.example/join/1'',
              meeting_id = Some ''teams-1'', interview_notes = None,
              interview_status = ''scheduled'', created_by = None\<rparr>
             (Some ''https://teams.example/join/1'')
             ''Interview scheduled with video meeting link'', None),
      ready_dialog,
      snd (schedule_interview (teams_world\<lparr>log := [GoogleCreateEvent]\<rparr>)
             \<lparr>http_method = ''POST'', authorization = Some ''Bearer jwt-1'',
              json = Some
                \<lparr>applicationId = Some ''app-1'',
                 scheduledAt = Some ''2026-01-05T09:00:00.000Z'',
                 durationMinutes = Num 60, interviewType_r = Some ''Technical'',
                 candidateEmail = Some ''ada@example.org'', candidateName = Some ''Ada'',
                 jobTitle = Some ''Engineer'', meetingUrl = None, meetingId = None\<rparr>\<rparr>))"
proof -
  have sel: "selectedDate ready_dialog = Some 1767571200000"
    "selectedApplication ready_dialog = ''app-1''" "selectedTime ready_dialog = ''09:00''"
    "duration ready_dialog = ''60''" "interviewType ready_dialog = ''Technical''"
    "calendarConnected ready_dialog" "createMeetLink ready_dialog"
    by (simp_all add: ready_dialog_def example_dialog_def)
  have app: "email example_app = ''ada@example.org''" "full_name example_app = ''Ada''"
    "title example_app = ''Engineer''"
    by (simp_all add: example_app_def)
  have p60: "parseInt ''60'' = Some 60"
    by (simp add: parseInt_def)
  have si: "fst (schedule_interview (teams_world\<lparr>log := [GoogleCreateEvent]\<rparr>)
             \<lparr>http_method = ''POST'', authorization = Some ''Bearer jwt-1'',
              json = Some
                \<lparr>applicationId = Some ''app-1'',
                 scheduledAt = Some ''2026-01-05T09:00:00.000Z'',
                 durationMinutes = Num 60, interviewType_r = Some ''Technical'',
                 candidateEmail = Some ''ada@example.org'', candidateName = Some ''Ada'',
                 jobTitle = Some ''Engineer'', meetingUrl = None, meetingId = None\<rparr>\<rparr>)
      = \<lparr>status = 200,
         body = ScheduledBody
             \<lparr>interview_id = 0, application_id = ''app-1'',
              scheduled_at = ''2026-01-05T09:00:00.000Z'', duration_minutes = 60,
              interview_type = ''Technical'',
              meeting_url = Some ''https://teams.example/join/1'',
              meeting_id = Some ''teams-1'', interview_notes = None,
              interview_status = ''scheduled'', created_by = None\<rparr>
             (Some ''https://teams.example/join/1'')
             ''Interview scheduled with video meeting link''\<rparr>"
    by (simp add: schedule_interview_def createTeamsMeeting_def insertInterview_def
        updateApplicationStatus_def emit_def truthy_def or_null_def teams_world_def
        example_world_def duration_or_default_def Let_def)
  have f: "find (\<lambda>a. app_id a = ''app-1'')
             (case applications ready_dialog of None \<Rightarrow> [] | Some apps \<Rightarrow> apps)
           = Some example_app"
    using ready_find by (simp add: sel)
  have e: "addMinutes (Date 1767603600000) (Some 60) = Date 1767607200000"
    using ready_end by (simp add: p60)
  show ?thesis
    by (simp add: mutationFn_def Let_def sel f ready_start e p60 teams_world_calendar_fails
        example_toISOString app case_prod_beta si invoke_data_def json_number_of_def)
qed

text \<open>
  C4, as stated, fails: the call to google-calendar fails (Google refuses the event), the
  mutation returns a success, and the interview that was persisted carries the link of the
  Microsoft Teams meeting the edge function created, not null.
\<close>

theorem teams_fallback_counterexample:
  "fst (createCalendarEvent example_platform ''jwt-1'' ready_dialog teams_world example_app
          (Date 1767603600000) (Date 1767607200000)) = (None, None)
   \<and> log (snd (snd (createCalendarEvent example_platform ''jwt-1'' ready_dialog teams_world
                      example_app (Date 1767603600000) (Date 1767607200000))))
       = [GoogleCreateEvent]
   \<and> google_create_event teams_world
         \<lparr>summary = ''Interview: Ada - Engineer'',
          description = Some ''Technical interview with Ada for Engineer position.'',
          startTime = ''2026-01-05T09:00:00.000Z'', endTime = ''2026-01-05T10:00:00.000Z'',
          attendees = Some [''ada@example.org''], createMeet = Some True\<rparr> = NotOk
   \<and> map meeting_url
         (interviews_table
            (snd (snd (mutationFn example_platform ''jwt-1'' ready_dialog teams_world))))
       = [Some ''https://teams.example/join/1'']
   \<and> fst (mutationFn example_platform ''jwt-1'' ready_dialog teams_world)
       = Inr (ScheduledBody
             \<lparr>interview_id = 0, application_id = ''app-1'',
              scheduled_at = ''2026-01-05T09:00:00.000Z'', duration_minutes = 60,
              interview_type = ''Technical'',
              meeting_url = Some ''https://teams.example/join/1'',
              meeting_id = Some ''teams-1'', interview_notes = None,
              interview_status = ''scheduled'', created_by = None\<rparr>
             (Some ''https://teams.example/join/1'')
             ''Interview scheduled with video meeting link'', None)"
proof -
  have "map meeting_url
         (interviews_table
            (snd (snd (mutationFn example_platform ''jwt-1'' ready_dialog teams_world))))
       = [Some ''https://teams.example/join/1'']"
    unfolding teams_world_mutation
    by (simp add: schedule_interview_def createTeamsMeeting_def insertInterview_def
        updateApplicationStatus_def emit_def truthy_def or_null_def teams_world_def
        example_world_def duration_or_default_def Let_def)
  moreover have "google_create_event teams_world
         \<lparr>summary = ''Interview: Ada - Engineer'',
          description = Some ''Technical interview with Ada for Engineer position.'',
          startTime = ''2026-01-05T09:00:00.000Z'', endTime = ''2026-01-05T10:00:00.000Z'',
          attendees = Some [''ada@example.org''], createMeet = Some True\<rparr> = NotOk"
    by (simp add: teams_world_def example_world_def)
  ultimately show ?thesis
    by (simp add: teams_world_calendar_fails teams_world_mutation)
qed

theorem meeting_failure_does_not_abort_witness:
  "fst (fst (createCalendarEvent example_platform ''jwt-1'' ready_dialog example_world
               example_app (Date 1767603600000) (Date 1767607200000))) = None
   \<and> \<not> insert_refused example_world ''app-1'' ''2026-01-05T09:00:00.000Z'' 60
   \<and> (\<exists>row u m.
         fst (mutationFn example_platform ''jwt-1'' ready_dialog example_world)
           = Inr (ScheduledBody row u m, None)
         \<and> interviews_table
             (snd (snd (mutationFn example_platform ''jwt-1'' ready_dialog example_world)))
           = [row]
         \<and> meeting_url row = None)"
proof -
  have sel: "selectedDate ready_dialog = Some 1767571200000"
    "selectedApplication ready_dialog = ''app-1''" "selectedTime ready_dialog = ''09:00''"
    "duration ready_dialog = ''60''"
    by (simp_all add: ready_dialog_def example_dialog_def)
  have cal: "fst (fst (createCalendarEvent example_platform ''jwt-1'' ready_dialog
               example_world example_app (Date 1767603600000) (Date 1767607200000))) = None"
    by (simp add: createCalendarEvent_def google_calendar_def remove_first_prefix
        selectTokens_def invoke_data_def truthy_def example_world_def Let_def)
  have acc: "\<not> insert_refused example_world ''app-1'' ''2026-01-05T09:00:00.000Z'' 60"
    by (simp add: insert_refused_def example_world_def)
  have teams: "fst (fst (createTeamsMeeting example_world ''2026-01-05T09:00:00.000Z''
                          (json_number_of (parseInt ''60'')) None None)) = None"
    by (simp add: createTeamsMeeting_def truthy_def example_world_def)
  have empty: "interviews_table example_world = []"
    by (simp add: example_world_def)
  from meeting_failure_does_not_abort [of ready_dialog 1767571200000 example_app
      example_platform 1767603600000 "''jwt-1''" example_world
      "fst (mutationFn example_platform ''jwt-1'' ready_dialog example_world)"
      "fst (snd (mutationFn example_platform ''jwt-1'' ready_dialog example_world))"
      "snd (snd (mutationFn example_platform ''jwt-1'' ready_dialog example_world))"]
  have "\<exists>row u m.
         fst (mutationFn example_platform ''jwt-1'' ready_dialog example_world)
           = Inr (ScheduledBody row u m, None)
         \<and> interviews_table
             (snd (snd (mutationFn example_platform ''jwt-1'' ready_dialog example_world)))
           = [row]
         \<and> meeting_url row = None"
    using ready_find ready_start ready_end cal acc teams empty
    by (simp add: sel example_toISOString parseInt_def json_number_of_def
        duration_or_default_def) blast
  with cal acc show ?thesis by simp
qed

end
